theory Spec2Isabelle
  imports Complex_Main
begin

section \<open>Errors and tensors\<close>

text \<open>
  The training loop of \<^verbatim>\<open>trainer.py\<close> is embedded function by function.
  Every exception the Python can raise is a value of \<open>error\<close>; a function that may raise
  returns \<open>error + 'a\<close> with \<open>Inl\<close> for the exception.
\<close>

datatype error = AssertionError | ZeroDivisionError | IndexError | RuntimeError | AttributeError

text \<open>
  A two-dimensional tensor keeps the size of its last dimension next to its rows, so that
  \<^verbatim>\<open>t.size(-1)\<close> is defined for a tensor with no rows too. A well-formed tensor is
  rectangular. Boolean masks of three dimensions are nested lists.
\<close>

record 'a tensor2 =
  ncols :: nat
  rows :: "'a list list"

definition wf2 :: "'a tensor2 \<Rightarrow> bool" where
  "wf2 t = list_all (\<lambda>r. length r = ncols t) (rows t)"

type_synonym mask3 = "bool list list list"

text \<open>\<^verbatim>\<open>t[:, :-1]\<close> and \<^verbatim>\<open>t[:, 1:]\<close>: a slice of an empty dimension is empty.\<close>

definition drop_last_col :: "'a tensor2 \<Rightarrow> 'a tensor2" where
  "drop_last_col t = \<lparr>ncols = ncols t - 1, rows = map butlast (rows t)\<rparr>"

definition drop_first_col :: "'a tensor2 \<Rightarrow> 'a tensor2" where
  "drop_first_col t = \<lparr>ncols = ncols t - 1, rows = map tl (rows t)\<rparr>"

text \<open>\<^verbatim>\<open>t != pad\<close>, element by element, and \<^verbatim>\<open>m.unsqueeze(-2)\<close> on a matrix.\<close>

definition ne_pad :: "int tensor2 \<Rightarrow> int \<Rightarrow> bool list list" where
  "ne_pad t pad = map (map (\<lambda>v. v \<noteq> pad)) (rows t)"

definition unsqueeze_m2 :: "'a list list \<Rightarrow> 'a list list list" where
  "unsqueeze_m2 m = map (\<lambda>r. [r]) m"

text \<open>
  Broadcasting of a binary operation along one dimension: the two sizes are equal, or one
  of them is 1 and that operand is repeated; any other pair of sizes is a runtime error.
  \<open>band3\<close> is \<^verbatim>\<open>&\<close> on three-dimensional boolean tensors.
\<close>

fun sequence :: "(error + 'a) list \<Rightarrow> error + 'a list" where
  "sequence [] = Inr []"
| "sequence (r # rs) =
     (case r of
        Inl e \<Rightarrow> Inl e
      | Inr v \<Rightarrow> (case sequence rs of Inl e \<Rightarrow> Inl e | Inr vs \<Rightarrow> Inr (v # vs)))"

definition bcast :: "('a \<Rightarrow> 'b \<Rightarrow> error + 'c) \<Rightarrow> 'a list \<Rightarrow> 'b list \<Rightarrow> error + 'c list" where
  "bcast f xs ys =
     (if length xs = length ys then sequence (map2 f xs ys)
      else if length xs = 1 then sequence (map (f (hd xs)) ys)
      else if length ys = 1 then sequence (map (\<lambda>x. f x (hd ys)) xs)
      else Inl RuntimeError)"

definition band3 :: "mask3 \<Rightarrow> mask3 \<Rightarrow> error + mask3" where
  "band3 = bcast (bcast (bcast (\<lambda>a b. Inr (a \<and> b))))"

section \<open>Batch\<close>

text \<open>
  Modelled from the spec: \<^verbatim>\<open>subsequent_mask\<close> is imported from \<^verbatim>\<open>utils\<close>, a module
  of the repository that is not among the sources. The specification describes its result
  as a fixed lower-triangular boolean matrix of shape \<open>[1, L, L]\<close>, computed independently
  of the data, true where column \<open>\<le>\<close> row.
\<close>

definition subsequent_mask :: "nat \<Rightarrow> mask3" where
  "subsequent_mask sz = [map (\<lambda>i. map (\<lambda>j. j \<le> i) [0..<sz]) [0..<sz]]"

text \<open>
  \<^verbatim>\<open>Batch.make_std_mask\<close>: the padding mask of shape \<open>[B, 1, L]\<close> and the causal mask of
  shape \<open>[1, L, L]\<close>, combined by the broadcasting \<^verbatim>\<open>&\<close>.
\<close>

definition make_std_mask :: "int tensor2 \<Rightarrow> int \<Rightarrow> error + mask3" where
  "make_std_mask t pad =
     (let tgt_mask0 = unsqueeze_m2 (ne_pad t pad)
      in band3 tgt_mask0 (subsequent_mask (ncols t)))"

text \<open>
  The attributes \<^verbatim>\<open>tgt\<close>, \<^verbatim>\<open>tgt_y\<close>, \<^verbatim>\<open>tgt_mask\<close> and \<^verbatim>\<open>ntokens\<close> exist on a
  \<^verbatim>\<open>Batch\<close> object only when a target was given; they are set together, so they form
  one optional group. Reading one of them on a batch built without a target raises
  \<^verbatim>\<open>AttributeError\<close>.
\<close>

record tgt_fields =
  tgt :: "int tensor2"
  tgt_y :: "int tensor2"
  tgt_mask :: mask3
  ntokens :: nat

record Batch =
  src :: "int tensor2"
  src_mask :: mask3
  target :: "tgt_fields option"

text \<open>\<^verbatim>\<open>(tgt_y != pad).data.sum()\<close>: the sum of a boolean tensor, \<open>True\<close> counting 1.\<close>

definition sum_bool :: "bool list list \<Rightarrow> nat" where
  "sum_bool m = sum_list (map (\<lambda>b. if b then 1 else 0) (concat m))"

definition Batch_init :: "int tensor2 \<Rightarrow> int tensor2 option \<Rightarrow> int \<Rightarrow> error + Batch" where
  "Batch_init s t_opt pad =
     (let s_mask = unsqueeze_m2 (ne_pad s pad)
      in case t_opt of
           None \<Rightarrow> Inr \<lparr>src = s, src_mask = s_mask, target = None\<rparr>
         | Some t \<Rightarrow>
             (let t_in = drop_last_col t;
                  t_out = drop_first_col t
              in case make_std_mask t_in pad of
                   Inl e \<Rightarrow> Inl e
                 | Inr m \<Rightarrow>
                     Inr \<lparr>src = s, src_mask = s_mask,
                          target = Some \<lparr>tgt = t_in, tgt_y = t_out, tgt_mask = m,
                                          ntokens = sum_bool (ne_pad t_out pad)\<rparr>\<rparr>))"

text \<open>The default of the \<^verbatim>\<open>pad\<close> parameter: 2, the id of the blank token.\<close>

definition default_pad :: int where
  "default_pad = 2"

section \<open>Floating-point values and scalar tensors\<close>

text \<open>
  Losses are floating-point tensors. A value is a rational number or one of the three
  special values of IEEE arithmetic; finite results are kept exact, so rounding is
  outside the model, while division by zero and the arithmetic of infinities and NaN
  are those of the tensor library: a tensor division by zero does not raise.
\<close>

datatype fval = Fin rat | PInf | NInf | NaN

fun fadd :: "fval \<Rightarrow> fval \<Rightarrow> fval" where
  "fadd NaN _ = NaN"
| "fadd _ NaN = NaN"
| "fadd (Fin a) (Fin b) = Fin (a + b)"
| "fadd PInf NInf = NaN"
| "fadd NInf PInf = NaN"
| "fadd PInf _ = PInf"
| "fadd _ PInf = PInf"
| "fadd NInf _ = NInf"
| "fadd _ NInf = NInf"

fun fmul :: "fval \<Rightarrow> fval \<Rightarrow> fval" where
  "fmul NaN _ = NaN"
| "fmul _ NaN = NaN"
| "fmul (Fin a) (Fin b) = Fin (a * b)"
| "fmul (Fin a) PInf = (if a = 0 then NaN else if 0 < a then PInf else NInf)"
| "fmul (Fin a) NInf = (if a = 0 then NaN else if 0 < a then NInf else PInf)"
| "fmul PInf (Fin b) = (if b = 0 then NaN else if 0 < b then PInf else NInf)"
| "fmul NInf (Fin b) = (if b = 0 then NaN else if 0 < b then NInf else PInf)"
| "fmul PInf PInf = PInf"
| "fmul NInf NInf = PInf"
| "fmul PInf NInf = NInf"
| "fmul NInf PInf = NInf"

fun fdiv :: "fval \<Rightarrow> fval \<Rightarrow> fval" where
  "fdiv NaN _ = NaN"
| "fdiv _ NaN = NaN"
| "fdiv (Fin a) (Fin b) =
     (if b = 0 then (if a = 0 then NaN else if 0 < a then PInf else NInf) else Fin (a / b))"
| "fdiv (Fin a) _ = Fin 0"
| "fdiv PInf (Fin b) = (if 0 \<le> b then PInf else NInf)"
| "fdiv NInf (Fin b) = (if 0 \<le> b then NInf else PInf)"
| "fdiv _ _ = NaN"

text \<open>
  A zero-dimensional tensor: its value, and whether it is attached to the graph of the
  automatic differentiation. \<^verbatim>\<open>t.data\<close> is the same value, detached; arithmetic with a
  plain number keeps the attachment of the tensor operand.
\<close>

record scalar =
  item :: fval
  requires_grad :: bool

definition data :: "scalar \<Rightarrow> scalar" where
  "data t = t\<lparr>requires_grad := False\<rparr>"

definition tensor_div :: "scalar \<Rightarrow> rat \<Rightarrow> scalar" where
  "tensor_div t n = t\<lparr>item := fdiv (item t) (Fin n)\<rparr>"

definition tensor_mul :: "scalar \<Rightarrow> rat \<Rightarrow> scalar" where
  "tensor_mul t n = t\<lparr>item := fmul (item t) (Fin n)\<rparr>"

text \<open>
  A Python number or a zero-dimensional tensor: \<^verbatim>\<open>+\<close> and \<^verbatim>\<open>/\<close> of two Python numbers
  are Python's, and \<^verbatim>\<open>/\<close> raises on a zero divisor; as soon as one operand is a tensor
  the operation is the tensor's.
\<close>

datatype num = Py rat | Tensor fval

fun py_add :: "num \<Rightarrow> num \<Rightarrow> num" where
  "py_add (Py a) (Py b) = Py (a + b)"
| "py_add (Py a) (Tensor g) = Tensor (fadd (Fin a) g)"
| "py_add (Tensor f) (Py b) = Tensor (fadd f (Fin b))"
| "py_add (Tensor f) (Tensor g) = Tensor (fadd f g)"

fun py_truediv :: "num \<Rightarrow> num \<Rightarrow> error + num" where
  "py_truediv (Py a) (Py b) = (if b = 0 then Inl ZeroDivisionError else Inr (Py (a / b)))"
| "py_truediv (Py a) (Tensor g) = Inr (Tensor (fdiv (Fin a) g))"
| "py_truediv (Tensor f) (Py b) = Inr (Tensor (fdiv f (Fin b)))"
| "py_truediv (Tensor f) (Tensor g) = Inr (Tensor (fdiv f g))"

section \<open>Calls to collaborators\<close>

text \<open>
  The model, the projection, the criterion, the optimizer and the scheduler are
  collaborators of the training loop. Each call the source makes to one of them is
  recorded, in order, in a trace; the collaborators are taken to return normally.
\<close>

datatype event =
    GeneratorCall | CriterionCall
  | ModelForward | LossComputeCall | Backward
  | OptimizerStep | OptimizerZeroGrad | SchedulerStep
  | Print nat int

section \<open>SimpleLossCompute\<close>

text \<open>
  The output of the projection has shape \<open>[B, L, V]\<close>. \<^verbatim>\<open>x.contiguous().view(-1, x.size(-1))\<close>
  lays its rows of length \<open>V\<close> one after the other, and \<^verbatim>\<open>y.contiguous().view(-1)\<close> does the
  same with the labels; the last dimension is taken to be non-empty, as a vocabulary is.
\<close>

record 'a tensor3 =
  last_dim :: nat
  planes :: "'a list list list"

definition view2 :: "'a tensor3 \<Rightarrow> 'a tensor2" where
  "view2 x = \<lparr>ncols = last_dim x, rows = concat (planes x)\<rparr>"

definition view1 :: "'a tensor2 \<Rightarrow> 'a list" where
  "view1 y = concat (rows y)"

record ('x, 'v) SimpleLossCompute =
  generator :: "'x \<Rightarrow> 'v tensor3"
  criterion :: "'v tensor2 \<Rightarrow> int list \<Rightarrow> scalar"

definition SimpleLossCompute_call ::
  "('x, 'v) SimpleLossCompute \<Rightarrow> 'x \<Rightarrow> int tensor2 \<Rightarrow> rat \<Rightarrow> event list
     \<Rightarrow> (scalar \<times> scalar) \<times> event list" where
  "SimpleLossCompute_call self x y nrm tr =
     (let x1 = generator self x;
          tr1 = tr @ [GeneratorCall];
          c = criterion self (view2 x1) (view1 y);
          tr2 = tr1 @ [CriterionCall];
          sloss = tensor_div c nrm
      in ((tensor_mul (data sloss) nrm, sloss), tr2))"

section \<open>LabelSmoothing\<close>

text \<open>
  The object keeps its parameters and the field \<^verbatim>\<open>true_dist\<close>, which is \<^verbatim>\<open>None\<close> after
  construction. Its \<^verbatim>\<open>KLDivLoss\<close> is a collaborator and is passed to \<open>forward\<close>. The
  entries of the distribution are rationals.
\<close>

record LabelSmoothing =
  padding_idx :: int
  confidence :: rat
  smoothing :: rat
  size_v :: int
  true_dist :: "rat tensor2 option"

definition LabelSmoothing_init :: "int \<Rightarrow> int \<Rightarrow> rat \<Rightarrow> LabelSmoothing" where
  "LabelSmoothing_init sz pidx sm =
     \<lparr>padding_idx = pidx, confidence = 1 - sm, smoothing = sm, size_v = sz, true_dist = None\<rparr>"

text \<open>\<^verbatim>\<open>x.data.clone()\<close> followed by \<^verbatim>\<open>fill_(v)\<close>: the shape of \<open>x\<close>, every entry \<open>v\<close>.\<close>

definition fill :: "'a tensor2 \<Rightarrow> rat \<Rightarrow> rat tensor2" where
  "fill x v = \<lparr>ncols = ncols x, rows = map (map (\<lambda>_. v)) (rows x)\<rparr>"

text \<open>
  \<^verbatim>\<open>t.scatter_(1, index.unsqueeze(1), v)\<close>: row \<open>n\<close> gets \<open>v\<close> at column \<open>index[n]\<close>. The
  index may not have more rows than \<open>t\<close>, and every index must be a column of \<open>t\<close>;
  negative indices are not accepted.
\<close>

definition scatter1 :: "rat tensor2 \<Rightarrow> int list \<Rightarrow> rat \<Rightarrow> error + rat tensor2" where
  "scatter1 t idx v =
     (if length (rows t) < length idx then Inl RuntimeError
      else if \<exists>k \<in> set idx. k < 0 \<or> int (ncols t) \<le> k then Inl RuntimeError
      else Inr (t\<lparr>rows := map (\<lambda>(n, r). if n < length idx then r[nat (idx ! n) := v] else r)
                              (enumerate 0 (rows t))\<rparr>))"

text \<open>An index into a dimension of size \<open>n\<close>: a negative index counts from the end.\<close>

definition py_index :: "nat \<Rightarrow> int \<Rightarrow> error + nat" where
  "py_index n i =
     (if 0 \<le> i \<and> i < int n then Inr (nat i)
      else if - int n \<le> i \<and> i < 0 then Inr (nat (int n + i))
      else Inl IndexError)"

text \<open>\<^verbatim>\<open>t[:, p] = v\<close>.\<close>

definition set_column :: "rat tensor2 \<Rightarrow> int \<Rightarrow> rat \<Rightarrow> error + rat tensor2" where
  "set_column t p v =
     (case py_index (ncols t) p of
        Inl e \<Rightarrow> Inl e
      | Inr c \<Rightarrow> Inr (t\<lparr>rows := map (\<lambda>r. r[c := v]) (rows t)\<rparr>))"

text \<open>
  \<^verbatim>\<open>torch.nonzero(target == p)\<close>: the positions of \<open>p\<close> in the target. The result is a
  tensor of two dimensions whatever the number of positions, so the test
  \<^verbatim>\<open>mask.dim() > 0\<close> of the source always succeeds.
\<close>

definition nonzero_eq :: "int list \<Rightarrow> int \<Rightarrow> nat list" where
  "nonzero_eq tg p = filter (\<lambda>n. tg ! n = p) [0..<length tg]"

definition nonzero_dim :: nat where
  "nonzero_dim = 2"

text \<open>\<^verbatim>\<open>t.index_fill_(0, ns, v)\<close>: every row listed in \<open>ns\<close> becomes \<open>v\<close> throughout.\<close>

definition index_fill0 :: "rat tensor2 \<Rightarrow> nat list \<Rightarrow> rat \<Rightarrow> error + rat tensor2" where
  "index_fill0 t ns v =
     (if \<exists>n \<in> set ns. length (rows t) \<le> n then Inl IndexError
      else Inr (t\<lparr>rows := map (\<lambda>(n, r). if n \<in> set ns then map (\<lambda>_. v) r else r)
                              (enumerate 0 (rows t))\<rparr>))"

definition forward ::
  "('a tensor2 \<Rightarrow> rat tensor2 \<Rightarrow> 'l) \<Rightarrow> LabelSmoothing \<Rightarrow> 'a tensor2 \<Rightarrow> int list
     \<Rightarrow> (error + 'l) \<times> LabelSmoothing" where
  "forward kl_div self x tg =
     (if int (ncols x) \<noteq> size_v self then (Inl AssertionError, self)
      else if size_v self - 2 = 0 then (Inl ZeroDivisionError, self)
      else
        case scatter1 (fill x (smoothing self / of_int (size_v self - 2))) tg (confidence self) of
          Inl e \<Rightarrow> (Inl e, self)
        | Inr td1 \<Rightarrow>
            (case set_column td1 (padding_idx self) 0 of
               Inl e \<Rightarrow> (Inl e, self)
             | Inr td2 \<Rightarrow>
                 (case (if 0 < nonzero_dim
                        then index_fill0 td2 (nonzero_eq tg (padding_idx self)) 0
                        else Inr td2) of
                    Inl e \<Rightarrow> (Inl e, self)
                  | Inr td3 \<Rightarrow> (Inr (kl_div x td3), self\<lparr>true_dist := Some td3\<rparr>))))"

text \<open>
  The distribution as the specification words it, for a target of one entry per row:
  the uniform share \<open>smoothing / (size - 2)\<close> at every class, the confidence at the target
  class, 0 at the class \<open>padding_idx\<close>, and 0 throughout a row whose target is the class
  \<open>padding_idx\<close>. It is written without any of the operations of \<open>forward\<close>.
\<close>

definition spec_true_dist :: "nat \<Rightarrow> int \<Rightarrow> int \<Rightarrow> rat \<Rightarrow> int list \<Rightarrow> rat tensor2" where
  "spec_true_dist v sz pidx sm tg =
     \<lparr>ncols = v,
      rows = map (\<lambda>t. map (\<lambda>c. if t = pidx then 0
                                else if int c = pidx then 0
                                else if int c = t then 1 - sm
                                else sm / of_int (sz - 2)) [0..<v]) tg\<rparr>"

section \<open>TrainState and run_epoch\<close>

record TrainState =
  step :: int
  accum_step :: int
  samples :: int
  tokens :: int

definition TrainState_init :: TrainState where
  "TrainState_init = \<lparr>step = 0, accum_step = 0, samples = 0, tokens = 0\<rparr>"

text \<open>
  What \<^verbatim>\<open>run_epoch\<close> can change outside its own variables: the \<^verbatim>\<open>TrainState\<close> object it
  was given, the trace of the calls it made, and the state \<open>ext\<close> of the collaborators
  (parameters, gradients, learning rate), which only they read and write.
\<close>

record 'w world =
  train_state :: TrainState
  trace :: "event list"
  ext :: 'w

text \<open>
  The collaborators: \<^verbatim>\<open>model.forward\<close>, \<^verbatim>\<open>loss_compute\<close>, \<^verbatim>\<open>loss_node.backward\<close>,
  \<^verbatim>\<open>optimizer.step\<close>, \<^verbatim>\<open>optimizer.zero_grad\<close> and \<^verbatim>\<open>scheduler.step\<close>, each a function
  on the state of the collaborators.
\<close>

record ('w, 'o, 'n) caps =
  model_forward :: "int tensor2 \<Rightarrow> int tensor2 \<Rightarrow> mask3 \<Rightarrow> mask3 \<Rightarrow> 'w \<Rightarrow> 'o \<times> 'w"
  loss_compute :: "'o \<Rightarrow> int tensor2 \<Rightarrow> nat \<Rightarrow> 'w \<Rightarrow> (fval \<times> 'n) \<times> 'w"
  backward :: "'n \<Rightarrow> 'w \<Rightarrow> 'w"
  optimizer_step :: "'w \<Rightarrow> 'w"
  optimizer_zero_grad :: "'w \<Rightarrow> 'w"
  scheduler_step :: "'w \<Rightarrow> 'w"

text \<open>
  The local variables of \<^verbatim>\<open>run_epoch\<close>; \<open>tokens_w\<close> is the source's \<^verbatim>\<open>tokens\<close>, the count
  of the current reporting window. The three totals start as the Python number 0 and
  become tensors with the first batch, since \<^verbatim>\<open>loss\<close> and \<^verbatim>\<open>batch.ntokens\<close> are tensors.
  The clock is not modelled: it only feeds the progress report.
\<close>

record locals =
  total_tokens :: num
  total_loss :: num
  tokens_w :: num
  n_accum :: int

definition is_training :: "string \<Rightarrow> bool" where
  "is_training mode = (mode = ''train'' \<or> mode = ''train+log'')"

text \<open>
  The body of \<^verbatim>\<open>if mode == "train" or mode == "train+log"\<close>, lines 147 to 156.
  \<^verbatim>\<open>i % accum_iter\<close> raises when \<^verbatim>\<open>accum_iter\<close> is 0, after the counters were advanced.
\<close>

definition train_step ::
  "('w, 'o, 'n) caps \<Rightarrow> int \<Rightarrow> nat \<Rightarrow> Batch \<Rightarrow> tgt_fields \<Rightarrow> 'n \<Rightarrow> 'w world \<times> locals
     \<Rightarrow> error option \<times> 'w world \<times> locals" where
  "train_step c accum_iter i batch f loss_node s =
     (let (w, l) = s;
          w1 = w\<lparr>trace := trace w @ [Backward], ext := backward c loss_node (ext w)\<rparr>;
          ts = train_state w1;
          ts1 = ts\<lparr>step := step ts + 1\<rparr>;
          ts2 = ts1\<lparr>samples := samples ts1 + int (length (rows (src batch)))\<rparr>;
          ts3 = ts2\<lparr>tokens := tokens ts2 + int (ntokens f)\<rparr>;
          w2 = w1\<lparr>train_state := ts3\<rparr>
      in if accum_iter = 0 then (Some ZeroDivisionError, w2, l)
         else
           let (w3, l3) =
                 (if int i mod accum_iter = 0
                  then (w2\<lparr>trace := trace w2 @ [OptimizerStep, OptimizerZeroGrad],
                           ext := optimizer_zero_grad c (optimizer_step c (ext w2)),
                           train_state := ts3\<lparr>accum_step := accum_step ts3 + 1\<rparr>\<rparr>,
                        l\<lparr>n_accum := n_accum l + 1\<rparr>)
                  else (w2, l))
           in (None,
               w3\<lparr>trace := trace w3 @ [SchedulerStep], ext := scheduler_step c (ext w3)\<rparr>,
               l3))"

text \<open>
  One iteration of the loop, lines 140 to 174, for the batch of index \<open>i\<close>. The
  arguments of \<^verbatim>\<open>model.forward\<close> are read first, so a batch built without a target
  fails before any call is made.
\<close>

definition run_batch ::
  "('w, 'o, 'n) caps \<Rightarrow> string \<Rightarrow> int \<Rightarrow> nat \<Rightarrow> Batch \<Rightarrow> 'w world \<times> locals
     \<Rightarrow> error option \<times> 'w world \<times> locals" where
  "run_batch c mode accum_iter i batch s =
     (let (w, l) = s
      in case target batch of
           None \<Rightarrow> (Some AttributeError, w, l)
         | Some f \<Rightarrow>
             (let (out, e1) = model_forward c (src batch) (tgt f) (src_mask batch) (tgt_mask f) (ext w);
                  w1 = w\<lparr>trace := trace w @ [ModelForward], ext := e1\<rparr>;
                  ((loss, loss_node), e2) = loss_compute c out (tgt_y f) (ntokens f) (ext w1);
                  w2 = w1\<lparr>trace := trace w1 @ [LossComputeCall], ext := e2\<rparr>
              in case (if is_training mode
                       then train_step c accum_iter i batch f loss_node (w2, l)
                       else (None, w2, l)) of
                   (Some e, s') \<Rightarrow> (Some e, s')
                 | (None, w3, l3) \<Rightarrow>
                     (let nt = Tensor (Fin (of_nat (ntokens f)));
                          l4 = l3\<lparr>total_loss := py_add (total_loss l3) (Tensor loss),
                                  total_tokens := py_add (total_tokens l3) nt,
                                  tokens_w := py_add (tokens_w l3) nt\<rparr>
                      in if i mod 40 = 1 \<and> is_training mode
                         then (None,
                               w3\<lparr>trace := trace w3 @ [Print i (n_accum l4)]\<rparr>,
                               l4\<lparr>tokens_w := Py 0\<rparr>)
                         else (None, w3, l4))))"

text \<open>\<^verbatim>\<open>for i, batch in enumerate(data_iter)\<close>, from index \<open>i\<close> on; an exception ends the loop.\<close>

fun run_loop ::
  "('w, 'o, 'n) caps \<Rightarrow> string \<Rightarrow> int \<Rightarrow> nat \<Rightarrow> Batch list \<Rightarrow> 'w world \<times> locals
     \<Rightarrow> error option \<times> 'w world \<times> locals" where
  "run_loop c mode accum_iter i [] s = (None, s)"
| "run_loop c mode accum_iter i (batch # rest) s =
     (case run_batch c mode accum_iter i batch s of
        (Some e, s') \<Rightarrow> (Some e, s')
      | (None, s') \<Rightarrow> run_loop c mode accum_iter (Suc i) rest s')"

text \<open>
  \<^verbatim>\<open>run_epoch\<close> returns the mean loss and the \<^verbatim>\<open>TrainState\<close> object, or raises; in both
  cases the world is left as the loop made it.
\<close>

definition run_epoch ::
  "('w, 'o, 'n) caps \<Rightarrow> Batch list \<Rightarrow> string \<Rightarrow> int \<Rightarrow> 'w world
     \<Rightarrow> (error + num \<times> TrainState) \<times> 'w world" where
  "run_epoch c data_iter mode accum_iter w =
     (let l0 = \<lparr>total_tokens = Py 0, total_loss = Py 0, tokens_w = Py 0, n_accum = 0\<rparr>
      in case run_loop c mode accum_iter 0 data_iter (w, l0) of
           (Some e, w', l) \<Rightarrow> (Inl e, w')
         | (None, w', l) \<Rightarrow>
             (case py_truediv (total_loss l) (total_tokens l) of
                Inl e \<Rightarrow> (Inl e, w')
              | Inr mean \<Rightarrow> (Inr (mean, train_state w'), w')))"

text \<open>The defaults of the parameters \<^verbatim>\<open>mode\<close> and \<^verbatim>\<open>accum_iter\<close>.\<close>

definition default_mode :: string where
  "default_mode = ''train''"

definition default_accum_iter :: int where
  "default_accum_iter = 1"

section \<open>A concrete scenario\<close>

text \<open>
  Inputs for concrete runs: a source of shape \<open>[2, 3]\<close> and a target of shape \<open>[2, 4]\<close> with
  padding id 2, the batch that \<open>Batch_init\<close> builds from them, and collaborators that
  do nothing and report the loss 1.
\<close>

definition scenario_src :: "int tensor2" where
  "scenario_src = \<lparr>ncols = 3, rows = [[5, 6, 7], [8, 9, 2]]\<rparr>"

definition scenario_tgt :: "int tensor2" where
  "scenario_tgt = \<lparr>ncols = 4, rows = [[1, 5, 6, 7], [1, 8, 9, 2]]\<rparr>"

definition scenario_batch :: Batch where
  "scenario_batch =
     \<lparr>src = scenario_src,
      src_mask = [[[True, True, True]], [[True, True, False]]],
      target = Some
        \<lparr>tgt = \<lparr>ncols = 3, rows = [[1, 5, 6], [1, 8, 9]]\<rparr>,
         tgt_y = \<lparr>ncols = 3, rows = [[5, 6, 7], [8, 9, 2]]\<rparr>,
         tgt_mask = [[[True, False, False], [True, True, False], [True, True, True]],
                     [[True, False, False], [True, True, False], [True, True, True]]],
         ntokens = 5\<rparr>\<rparr>"

definition idle_caps :: "(unit, unit, unit) caps" where
  "idle_caps =
     \<lparr>model_forward = (\<lambda>s t sm tm w. ((), w)),
      loss_compute = (\<lambda>out y n w. ((Fin 1, ()), w)),
      backward = (\<lambda>n w. w),
      optimizer_step = (\<lambda>w. w),
      optimizer_zero_grad = (\<lambda>w. w),
      scheduler_step = (\<lambda>w. w)\<rparr>"

definition fresh_world :: "unit world" where
  "fresh_world = \<lparr>train_state = TrainState_init, trace = [], ext = ()\<rparr>"

section \<open>Counting the calls in the state of the collaborators\<close>

text \<open>
  A number \<open>f\<close> read off the state of the collaborators grows by fixed amounts when each
  capability raises it by its own amount. It counts the calls of \<^verbatim>\<open>optimizer.step\<close> when
  that capability raises it by one and every other capability leaves it as it is, and
  likewise for \<^verbatim>\<open>scheduler.step\<close>.
\<close>

definition grows_by ::
  "('w \<Rightarrow> nat) \<Rightarrow> ('w, 'o, 'n) caps \<Rightarrow> nat \<Rightarrow> nat \<Rightarrow> nat \<Rightarrow> nat \<Rightarrow> nat \<Rightarrow> nat \<Rightarrow> bool" where
  "grows_by f c m lc d a z sc \<longleftrightarrow>
     (\<forall>s t sm tm e. f (snd (model_forward c s t sm tm e)) = f e + m) \<and>
     (\<forall>out y n e. f (snd (loss_compute c out y n e)) = f e + lc) \<and>
     (\<forall>nd e. f (backward c nd e) = f e + d) \<and>
     (\<forall>e. f (optimizer_step c e) = f e + a) \<and>
     (\<forall>e. f (optimizer_zero_grad c e) = f e + z) \<and>
     (\<forall>e. f (scheduler_step c e) = f e + sc)"

definition counts_optimizer_steps :: "('w \<Rightarrow> nat) \<Rightarrow> ('w, 'o, 'n) caps \<Rightarrow> bool" where
  "counts_optimizer_steps f c = grows_by f c 0 0 0 1 0 0"

definition counts_scheduler_steps :: "('w \<Rightarrow> nat) \<Rightarrow> ('w, 'o, 'n) caps \<Rightarrow> bool" where
  "counts_scheduler_steps f c = grows_by f c 0 0 0 0 0 1"

text \<open>Collaborators whose state is the number of calls each of them has received.\<close>

record counters =
  calls_forward :: nat
  calls_loss :: nat
  calls_backward :: nat
  calls_step :: nat
  calls_zero_grad :: nat
  calls_sched :: nat

definition counting_caps :: "(counters, unit, unit) caps" where
  "counting_caps =
     \<lparr>model_forward = (\<lambda>s t sm tm w. ((), w\<lparr>calls_forward := calls_forward w + 1\<rparr>)),
      loss_compute = (\<lambda>out y n w. ((Fin 1, ()), w\<lparr>calls_loss := calls_loss w + 1\<rparr>)),
      backward = (\<lambda>n w. w\<lparr>calls_backward := calls_backward w + 1\<rparr>),
      optimizer_step = (\<lambda>w. w\<lparr>calls_step := calls_step w + 1\<rparr>),
      optimizer_zero_grad = (\<lambda>w. w\<lparr>calls_zero_grad := calls_zero_grad w + 1\<rparr>),
      scheduler_step = (\<lambda>w. w\<lparr>calls_sched := calls_sched w + 1\<rparr>)\<rparr>"

definition counting_world :: "counters world" where
  "counting_world =
     \<lparr>train_state = TrainState_init, trace = [],
      ext = \<lparr>calls_forward = 0, calls_loss = 0, calls_backward = 0, calls_step = 0,
             calls_zero_grad = 0, calls_sched = 0\<rparr>\<rparr>"

section \<open>Properties of Batch\<close>

subsection \<open>Broadcasting on compatible shapes\<close>

lemma sequence_map_Inr:
  "(\<And>x. x \<in> set xs \<Longrightarrow> f x = Inr (g x)) \<Longrightarrow> sequence (map f xs) = Inr (map g xs)"
  by (induction xs) auto

lemma bcast_same:
  "length xs = length ys \<Longrightarrow> bcast f xs ys = sequence (map2 f xs ys)"
  by (simp add: bcast_def)

lemma bcast_left1: "bcast f [x] ys = sequence (map (f x) ys)"
  by (cases ys rule: list.exhaust; cases "tl ys") (auto simp: bcast_def)

lemma bcast_right1: "bcast f xs [y] = sequence (map (\<lambda>x. f x y) xs)"
  by (cases xs rule: list.exhaust; cases "tl xs") (auto simp: bcast_def)

lemma bcast_and_row:
  "length p = length c \<Longrightarrow> bcast (\<lambda>a b. Inr (a \<and> b)) p c = Inr (map2 (\<and>) p c)"
proof -
  assume "length p = length c"
  then have "bcast (\<lambda>a b. Inr (a \<and> b)) p c = sequence (map (\<lambda>(a, b). Inr (a \<and> b)) (zip p c))"
    by (simp add: bcast_same)
  also have "\<dots> = Inr (map (\<lambda>(a, b). a \<and> b) (zip p c))"
    by (rule sequence_map_Inr) auto
  finally show ?thesis .
qed

lemma make_std_mask_eq:
  assumes "wf2 t"
  shows "make_std_mask t pad =
    Inr (map (\<lambda>r. map (\<lambda>i. map (\<lambda>j. r ! j \<noteq> pad \<and> j \<le> i) [0..<ncols t]) [0..<ncols t]) (rows t))"
proof -
  let ?L = "ncols t"
  let ?and = "\<lambda>(a::bool) b. (Inr (a \<and> b) :: error + bool)"
  have inner: "bcast ?and (map (\<lambda>v. v \<noteq> pad) r) (map (\<lambda>j. j \<le> i) [0..<?L])
      = Inr (map (\<lambda>j. r ! j \<noteq> pad \<and> j \<le> i) [0..<?L])" if "length r = ?L" for r i
  proof -
    have "map2 (\<and>) (map (\<lambda>v. v \<noteq> pad) r) (map (\<lambda>j. j \<le> i) [0..<?L])
        = map (\<lambda>j. r ! j \<noteq> pad \<and> j \<le> i) [0..<?L]"
      using that by (intro nth_equalityI) auto
    then show ?thesis using that by (simp add: bcast_and_row)
  qed
  have middle: "bcast (bcast ?and) [map (\<lambda>v. v \<noteq> pad) r] (map (\<lambda>i. map (\<lambda>j. j \<le> i) [0..<?L]) [0..<?L])
      = Inr (map (\<lambda>i. map (\<lambda>j. r ! j \<noteq> pad \<and> j \<le> i) [0..<?L]) [0..<?L])" if "length r = ?L" for r
    unfolding bcast_left1 map_map
    by (rule sequence_map_Inr) (simp add: inner that)
  have rs: "\<And>r. r \<in> set (rows t) \<Longrightarrow> length r = ?L"
    using assms by (simp add: wf2_def list_all_iff)
  show ?thesis
    unfolding make_std_mask_def band3_def Let_def subsequent_mask_def unsqueeze_m2_def ne_pad_def
      bcast_right1 map_map
    by (rule sequence_map_Inr) (simp add: middle rs)
qed

lemma Batch_init_Some:
  assumes "wf2 t"
  shows "Batch_init s (Some t) pad =
    Inr \<lparr>src = s, src_mask = unsqueeze_m2 (ne_pad s pad),
         target = Some \<lparr>tgt = drop_last_col t, tgt_y = drop_first_col t,
           tgt_mask = map (\<lambda>r. map (\<lambda>i. map (\<lambda>j. r ! j \<noteq> pad \<and> j \<le> i) [0..<ncols t - 1]) [0..<ncols t - 1])
                        (map butlast (rows t)),
           ntokens = sum_bool (ne_pad (drop_first_col t) pad)\<rparr>\<rparr>"
proof -
  have "wf2 (drop_last_col t)"
    using assms by (simp add: wf2_def drop_last_col_def list_all_iff)
  from make_std_mask_eq [OF this, of pad] show ?thesis
    by (simp add: Batch_init_def Let_def drop_last_col_def)
qed

text \<open>
  Claim C1. A batch built from a rectangular target array of shape \<open>[B, T]\<close> has a
  \<^verbatim>\<open>tgt_mask\<close> of shape \<open>[B, T - 1, T - 1]\<close>, and at every valid index \<open>b, i, j\<close> the
  entry \<^verbatim>\<open>tgt_mask[b,i,j]\<close> is true exactly when \<open>j \<le> i\<close> and \<^verbatim>\<open>tgt[b,j]\<close> is not the
  padding id, where \<^verbatim>\<open>tgt\<close> is the batch's decoder input (the target without its last
  position). The construction never fails on a rectangular target.
\<close>

theorem tgt_mask_correct:
  assumes "wf2 t"
  shows "\<exists>bt f. Batch_init s (Some t) pad = Inr bt \<and> target bt = Some f \<and>
     tgt f = drop_last_col t \<and>
     length (tgt_mask f) = length (rows t) \<and>
     (\<forall>b < length (rows t). length (tgt_mask f ! b) = ncols t - 1 \<and>
        (\<forall>i < ncols t - 1. length (tgt_mask f ! b ! i) = ncols t - 1 \<and>
           (\<forall>j < ncols t - 1.
              tgt_mask f ! b ! i ! j = (j \<le> i \<and> rows (tgt f) ! b ! j \<noteq> pad))))"
  unfolding Batch_init_Some [OF assms]
  by (auto simp: drop_last_col_def)

theorem tgt_mask_correct_witness:
  "wf2 \<lparr>ncols = 4, rows = [[1, 5, 2, 2], [3, 4, 5, 6 :: int]]\<rparr> \<and>
   (\<exists>bt f. Batch_init \<lparr>ncols = 3, rows = [[1, 2, 3], [4, 5, 2]]\<rparr>
              (Some \<lparr>ncols = 4, rows = [[1, 5, 2, 2], [3, 4, 5, 6]]\<rparr>) 2 = Inr bt \<and>
      target bt = Some f \<and> length (tgt_mask f) = 2 \<and>
      tgt_mask f ! 0 ! 2 ! 1 = True \<and> tgt_mask f ! 0 ! 2 ! 2 = False \<and>
      tgt_mask f ! 1 ! 0 ! 1 = False \<and> tgt_mask f ! 1 ! 2 ! 2 = True)"
proof -
  have h: "wf2 \<lparr>ncols = 4, rows = [[1, 5, 2, 2], [3, 4, 5, 6 :: int]]\<rparr>"
    by (simp add: wf2_def)
  from tgt_mask_correct [OF h, of "\<lparr>ncols = 3, rows = [[1, 2, 3], [4, 5, 2]]\<rparr>" 2]
  obtain bt f where
    b: "Batch_init \<lparr>ncols = 3, rows = [[1, 2, 3], [4, 5, 2]]\<rparr>
          (Some \<lparr>ncols = 4, rows = [[1, 5, 2, 2], [3, 4, 5, 6]]\<rparr>) 2 = Inr bt"
      "target bt = Some f" "length (tgt_mask f) = 2"
    and t: "tgt f = drop_last_col \<lparr>ncols = 4, rows = [[1, 5, 2, 2], [3, 4, 5, 6]]\<rparr>"
    and m: "\<forall>b<2. \<forall>i<3. \<forall>j<3.
         tgt_mask f ! b ! i ! j = (j \<le> i \<and> rows (tgt f) ! b ! j \<noteq> 2)"
    by auto
  have "tgt_mask f ! 0 ! 2 ! 1 = True" "tgt_mask f ! 0 ! 2 ! 2 = False"
       "tgt_mask f ! 1 ! 0 ! 1 = False" "tgt_mask f ! 1 ! 2 ! 2 = True"
    using m by (simp_all add: t drop_last_col_def)
  with h b show ?thesis by blast
qed

subsection \<open>Counting the tokens of a batch\<close>

lemma sum_bool_rows: "sum_bool m = (\<Sum>r\<leftarrow>m. length (filter (\<lambda>b. b) r))"
proof (induction m)
  case Nil
  show ?case by (simp add: sum_bool_def)
next
  case (Cons r m)
  have "sum_list (map (\<lambda>b. if b then 1 else 0) r) = length (filter (\<lambda>b. b) r)"
    by (induction r) auto
  with Cons show ?case by (simp add: sum_bool_def)
qed

lemma ntokens_rows:
  "sum_bool (ne_pad u pad) = (\<Sum>r\<leftarrow>rows u. length (filter (\<lambda>v. v \<noteq> pad) r))"
  by (simp add: sum_bool_rows ne_pad_def filter_map comp_def)

lemma sum_list_nth_sum: "(\<Sum>r\<leftarrow>xs. f r) = (\<Sum>b<length xs. f (xs ! b))"
proof -
  have "(\<Sum>r\<leftarrow>xs. f r) = (\<Sum>b = 0..<length (map f xs). map f xs ! b)"
    by (rule sum_list_sum_nth)
  also have "\<dots> = (\<Sum>b<length xs. f (xs ! b))"
    by (simp add: atLeast0LessThan)
  finally show ?thesis .
qed

lemma count_entries:
  assumes "wf2 u"
  shows "(\<Sum>r\<leftarrow>rows u. length (filter P r)) =
     card {(b, j). b < length (rows u) \<and> j < ncols u \<and> P (rows u ! b ! j)}"
proof -
  have len: "length (rows u ! b) = ncols u" if "b < length (rows u)" for b
    using assms that by (simp add: wf2_def list_all_length)
  have "{(b, j). b < length (rows u) \<and> j < ncols u \<and> P (rows u ! b ! j)}
      = (SIGMA b:{..<length (rows u)}. {j. j < ncols u \<and> P (rows u ! b ! j)})"
    by auto
  then have "card {(b, j). b < length (rows u) \<and> j < ncols u \<and> P (rows u ! b ! j)}
      = (\<Sum>b<length (rows u). card {j. j < ncols u \<and> P (rows u ! b ! j)})"
    by simp
  also have "\<dots> = (\<Sum>b<length (rows u). length (filter P (rows u ! b)))"
    by (rule sum.cong) (simp_all add: length_filter_conv_card len)
  finally show ?thesis by (simp add: sum_list_nth_sum)
qed

text \<open>
  Claim C8. For a batch built from a rectangular target, \<^verbatim>\<open>ntokens\<close> is the number of
  entries of \<^verbatim>\<open>tgt_y\<close> (the target without its first position) that differ from the
  padding id. When the target has at least one position and no entry of \<^verbatim>\<open>tgt_y\<close> is
  padding, \<^verbatim>\<open>ntokens\<close> is \<open>batch_size * (tgt_len - 1)\<close>.
\<close>

theorem ntokens_correct:
  assumes "wf2 t"
  shows "\<exists>bt f. Batch_init s (Some t) pad = Inr bt \<and> target bt = Some f \<and>
     tgt_y f = drop_first_col t \<and>
     ntokens f = card {(b, j). b < length (rows (tgt_y f)) \<and> j < ncols (tgt_y f) \<and>
                               rows (tgt_y f) ! b ! j \<noteq> pad} \<and>
     (1 \<le> ncols t \<and> (\<forall>r \<in> set (rows (tgt_y f)). pad \<notin> set r) \<longrightarrow>
        int (ntokens f) = int (length (rows t)) * (int (ncols t) - 1))"
proof -
  let ?u = "drop_first_col t"
  have wfu: "wf2 ?u"
    using assms by (simp add: wf2_def drop_first_col_def list_all_iff)
  have cnt: "sum_bool (ne_pad ?u pad) =
      card {(b, j). b < length (rows ?u) \<and> j < ncols ?u \<and> rows ?u ! b ! j \<noteq> pad}"
    by (simp only: ntokens_rows count_entries [OF wfu])
  have full: "int (sum_bool (ne_pad ?u pad)) = int (length (rows t)) * (int (ncols t) - 1)"
    if "1 \<le> ncols t" and np: "\<forall>r \<in> set (rows ?u). pad \<notin> set r"
  proof -
    have "(\<Sum>r\<leftarrow>rows ?u. length (filter (\<lambda>v. v \<noteq> pad) r)) = (\<Sum>r\<leftarrow>rows ?u. ncols t - 1)"
    proof (rule arg_cong [where f = sum_list], rule map_cong [OF refl])
      fix r assume r: "r \<in> set (rows ?u)"
      then have "length r = ncols t - 1"
        using wfu by (auto simp: wf2_def list_all_iff drop_first_col_def)
      moreover have "filter (\<lambda>v. v \<noteq> pad) r = r"
        using np r by (auto simp: filter_id_conv)
      ultimately show "length (filter (\<lambda>v. v \<noteq> pad) r) = ncols t - 1" by simp
    qed
    also have "\<dots> = length (rows t) * (ncols t - 1)"
      by (simp add: sum_list_triv drop_first_col_def comp_def)
    finally show ?thesis
      using that(1) by (simp add: ntokens_rows of_nat_diff)
  qed
  show ?thesis
    unfolding Batch_init_Some [OF assms]
    using cnt full by simp
qed

theorem ntokens_correct_witness:
  "wf2 \<lparr>ncols = 4, rows = [[1, 5, 7, 8], [3, 4, 5, 6 :: int]]\<rparr> \<and>
   (\<exists>bt f. Batch_init \<lparr>ncols = 3, rows = [[1, 2, 3], [4, 5, 2]]\<rparr>
              (Some \<lparr>ncols = 4, rows = [[1, 5, 7, 8], [3, 4, 5, 6]]\<rparr>) 2 = Inr bt \<and>
      target bt = Some f \<and> (1::nat) \<le> 4 \<and> (\<forall>r \<in> set (rows (tgt_y f)). 2 \<notin> set r) \<and>
      ntokens f = 6)"
proof -
  let ?S = "\<lparr>ncols = 3, rows = [[1, 2, 3], [4, 5, 2 :: int]]\<rparr>"
  let ?T = "\<lparr>ncols = 4, rows = [[1, 5, 7, 8], [3, 4, 5, 6 :: int]]\<rparr>"
  have h: "wf2 ?T"
    by (simp add: wf2_def)
  from ntokens_correct [OF h, of ?S 2]
  obtain bt f where
    b: "Batch_init ?S (Some ?T) 2 = Inr bt" "target bt = Some f"
    and y: "tgt_y f = drop_first_col ?T"
    and n: "1 \<le> ncols ?T \<and> (\<forall>r \<in> set (rows (tgt_y f)). 2 \<notin> set r) \<longrightarrow>
              int (ntokens f) = int (length (rows ?T)) * (int (ncols ?T) - 1)"
    by blast
  have np: "\<forall>r \<in> set (rows (tgt_y f)). 2 \<notin> set r"
    by (simp add: y drop_first_col_def)
  with n have "ntokens f = 6" by simp
  with h b np show ?thesis by simp
qed

section \<open>Properties of LabelSmoothing\<close>

subsection \<open>Which errors the tensor operations raise\<close>

lemma scatter1_error: "scatter1 t idx v = Inl e \<Longrightarrow> e = RuntimeError"
  by (simp add: scatter1_def split: if_splits)

lemma set_column_error: "set_column t p v = Inl e \<Longrightarrow> e = IndexError"
  by (simp add: set_column_def py_index_def split: if_splits)

lemma index_fill0_error: "index_fill0 t ns v = Inl e \<Longrightarrow> e = IndexError"
  by (simp add: index_fill0_def split: if_splits)

lemma forward_error_cases:
  assumes "forward kl self x tg = (Inl e, s)"
  shows "s = self \<and>
    (e = AssertionError \<and> int (ncols x) \<noteq> size_v self \<or>
     e \<noteq> AssertionError \<and> int (ncols x) = size_v self)"
  using assms
  by (auto simp: forward_def split: if_splits sum.splits
      dest: scatter1_error set_column_error index_fill0_error)

subsection \<open>The distribution that forward builds\<close>

lemma mem_nonzero_eq: "n \<in> set (nonzero_eq tg p) \<longleftrightarrow> n < length tg \<and> tg ! n = p"
  by (auto simp: nonzero_eq_def)

lemma py_index_class:
  assumes "0 \<le> p" "p < int v"
  shows "py_index v p = Inr (nat p)"
  using assms by (simp add: py_index_def)

lemma forward_rows:
  assumes wf: "wf2 x"
    and sz: "int (ncols x) = size_v self" "size_v self \<noteq> 2"
    and conf: "confidence self = 1 - smoothing self"
    and len: "length tg = length (rows x)"
    and rng: "\<forall>t \<in> set tg. 0 \<le> t \<and> t < size_v self"
    and pad: "0 \<le> padding_idx self" "padding_idx self < size_v self"
  shows "forward kl self x tg =
    (Inr (kl x (spec_true_dist (ncols x) (size_v self) (padding_idx self) (smoothing self) tg)),
     self\<lparr>true_dist :=
       Some (spec_true_dist (ncols x) (size_v self) (padding_idx self) (smoothing self) tg)\<rparr>)"
proof -
  let ?V = "ncols x" and ?N = "length (rows x)"
  let ?u = "smoothing self / of_int (size_v self - 2)"
  let ?p = "padding_idx self"
  define c0 where "c0 = nat ?p"
  have c0: "py_index ?V ?p = Inr c0" "c0 < ?V" "int c0 = ?p"
    using pad sz by (simp_all add: c0_def py_index_class)
  have rowlen: "length (rows x ! n) = ?V" if "n < ?N" for n
    using wf that by (simp add: wf2_def list_all_length)
  have tgn: "0 \<le> tg ! n \<and> tg ! n < int ?V" if "n < ?N" for n
    using rng len sz that by (metis nth_mem)
  let ?td1 = "(fill x ?u)\<lparr>rows := map (\<lambda>(n, r). if n < length tg then r[nat (tg ! n) := confidence self] else r)
                  (enumerate 0 (rows (fill x ?u)))\<rparr>"
  have s1: "scatter1 (fill x ?u) tg (confidence self) = Inr ?td1"
    using len rng sz by (auto simp: scatter1_def fill_def)
  let ?td2 = "?td1\<lparr>rows := map (\<lambda>r. r[c0 := 0]) (rows ?td1)\<rparr>"
  have s2: "set_column ?td1 ?p 0 = Inr ?td2"
    using c0(1) by (simp add: set_column_def fill_def)
  let ?ns = "nonzero_eq tg ?p"
  let ?td3 = "?td2\<lparr>rows := map (\<lambda>(n, r). if n \<in> set ?ns then map (\<lambda>_. 0) r else r)
                  (enumerate 0 (rows ?td2))\<rparr>"
  have s3: "index_fill0 ?td2 ?ns 0 = Inr ?td3"
    using len by (auto simp: index_fill0_def fill_def mem_nonzero_eq)
  have rows_eq: "rows ?td3 =
      rows (spec_true_dist ?V (size_v self) ?p (smoothing self) tg)"
  proof (rule nth_equalityI)
    show "length (rows ?td3) =
        length (rows (spec_true_dist ?V (size_v self) ?p (smoothing self) tg))"
      by (simp add: spec_true_dist_def fill_def len)
  next
    fix n assume "n < length (rows ?td3)"
    then have n: "n < ?N" by (simp add: fill_def)
    have r1: "rows ?td1 ! n = (replicate ?V ?u)[nat (tg ! n) := confidence self]"
      using n len rowlen [OF n] by (simp add: fill_def nth_enumerate_eq map_replicate_const)
    have r2: "rows ?td2 ! n = (replicate ?V ?u)[nat (tg ! n) := confidence self, c0 := 0]"
      using n r1 by (simp add: fill_def)
    have r3: "rows ?td3 ! n =
        (if tg ! n = ?p then replicate ?V 0
         else (replicate ?V ?u)[nat (tg ! n) := confidence self, c0 := 0])"
      using n len r2 by (simp add: fill_def nth_enumerate_eq mem_nonzero_eq map_replicate_const)
    have "rows ?td3 ! n =
        map (\<lambda>c. if tg ! n = ?p then 0
                 else if int c = ?p then 0
                 else if int c = tg ! n then 1 - smoothing self
                 else ?u) [0..<?V]"
      unfolding r3 using tgn [OF n] c0(2,3)
      by (intro nth_equalityI) (auto simp: conf nth_list_update)
    then show "rows ?td3 ! n =
        rows (spec_true_dist ?V (size_v self) ?p (smoothing self) tg) ! n"
      using n len by (simp add: spec_true_dist_def)
  qed
  have "?td3 = spec_true_dist ?V (size_v self) ?p (smoothing self) tg"
    using rows_eq by (simp add: spec_true_dist_def fill_def)
  then show ?thesis
    using sz s1 s2 s3 by (simp add: forward_def nonzero_dim_def)
qed

text \<open>
  Claim C2. For an output of shape \<open>[N, V]\<close> with \<open>V = size\<close>, \<open>size \<ge> 3\<close>, one target per row,
  every target a class and the padding index a class, \<open>forward\<close> succeeds and the
  distribution it builds, stores and hands to the criterion is the one the specification
  words: \<open>smoothing / (size - 2)\<close> at every class, \<open>1 - smoothing\<close> at the target class, 0 at
  the class \<open>padding_idx\<close>, and 0 throughout a row whose target is the class \<open>padding_idx\<close>. For \<open>size = 5\<close>, \<open>padding_idx = 0\<close>, \<open>smoothing = 0.1\<close> and target \<open>[2]\<close> the row
  is \<open>0, 0.1/3, 0.9, 0.1/3, 0.1/3\<close>, which sums to 1.
\<close>

theorem true_dist_correct:
  "(wf2 x \<and> int (ncols x) = sz \<and> 3 \<le> sz \<and> length tg = length (rows x) \<and>
    (\<forall>t \<in> set tg. 0 \<le> t \<and> t < sz) \<and> 0 \<le> pidx \<and> pidx < sz \<longrightarrow>
      forward kl (LabelSmoothing_init sz pidx sm) x tg =
        (Inr (kl x (spec_true_dist (ncols x) sz pidx sm tg)),
         (LabelSmoothing_init sz pidx sm)
           \<lparr>true_dist := Some (spec_true_dist (ncols x) sz pidx sm tg)\<rparr>)) \<and>
   forward kl (LabelSmoothing_init 5 0 (1 / 10)) \<lparr>ncols = 5, rows = [[a, b, c, d, e]]\<rparr> [2] =
     (Inr (kl \<lparr>ncols = 5, rows = [[a, b, c, d, e]]\<rparr>
             \<lparr>ncols = 5, rows = [[0, (1 / 10) / 3, 9 / 10, (1 / 10) / 3, (1 / 10) / 3]]\<rparr>),
      (LabelSmoothing_init 5 0 (1 / 10))
        \<lparr>true_dist :=
           Some \<lparr>ncols = 5, rows = [[0, (1 / 10) / 3, 9 / 10, (1 / 10) / 3, (1 / 10) / 3]]\<rparr>\<rparr>) \<and>
   sum_list [0, (1 / 10) / 3, 9 / 10, (1 / 10) / 3, (1 / 10) / 3 :: rat] = 1"
proof (intro conjI impI)
  assume h: "wf2 x \<and> int (ncols x) = sz \<and> 3 \<le> sz \<and> length tg = length (rows x) \<and>
    (\<forall>t \<in> set tg. 0 \<le> t \<and> t < sz) \<and> 0 \<le> pidx \<and> pidx < sz"
  let ?self = "LabelSmoothing_init sz pidx sm"
  have f: "size_v ?self = sz" "padding_idx ?self = pidx" "smoothing ?self = sm"
    "confidence ?self = 1 - smoothing ?self"
    by (simp_all add: LabelSmoothing_init_def)
  have "forward kl ?self x tg =
    (Inr (kl x (spec_true_dist (ncols x) (size_v ?self) (padding_idx ?self) (smoothing ?self) tg)),
     ?self\<lparr>true_dist :=
       Some (spec_true_dist (ncols x) (size_v ?self) (padding_idx ?self) (smoothing ?self) tg)\<rparr>)"
    by (rule forward_rows) (use h in \<open>simp_all add: f\<close>)
  then show "forward kl ?self x tg =
      (Inr (kl x (spec_true_dist (ncols x) sz pidx sm tg)),
       ?self\<lparr>true_dist := Some (spec_true_dist (ncols x) sz pidx sm tg)\<rparr>)"
    by (simp only: f)
next
  let ?self = "LabelSmoothing_init 5 0 (1 / 10)"
  let ?x = "\<lparr>ncols = 5, rows = [[a, b, c, d, e]]\<rparr>"
  have f: "size_v ?self = 5" "padding_idx ?self = 0" "smoothing ?self = 1 / 10"
    "confidence ?self = 1 - smoothing ?self"
    by (simp_all add: LabelSmoothing_init_def)
  have "forward kl ?self ?x [2] =
    (Inr (kl ?x (spec_true_dist (ncols ?x) (size_v ?self) (padding_idx ?self) (smoothing ?self) [2])),
     ?self\<lparr>true_dist :=
       Some (spec_true_dist (ncols ?x) (size_v ?self) (padding_idx ?self) (smoothing ?self) [2])\<rparr>)"
    by (rule forward_rows) (simp_all add: f wf2_def)
  moreover have "spec_true_dist (ncols ?x) (size_v ?self) (padding_idx ?self) (smoothing ?self) [2] =
      \<lparr>ncols = 5, rows = [[0, (1 / 10) / 3, 9 / 10, (1 / 10) / 3, (1 / 10) / 3]]\<rparr>"
    by (simp add: f spec_true_dist_def upt_rec [of _ 5]
        upt_rec [of _ "Suc 0"] numeral_eq_Suc)
  ultimately show "forward kl ?self ?x [2] =
     (Inr (kl ?x \<lparr>ncols = 5, rows = [[0, (1 / 10) / 3, 9 / 10, (1 / 10) / 3, (1 / 10) / 3]]\<rparr>),
      ?self\<lparr>true_dist :=
           Some \<lparr>ncols = 5, rows = [[0, (1 / 10) / 3, 9 / 10, (1 / 10) / 3, (1 / 10) / 3]]\<rparr>\<rparr>)"
    by simp
next
  show "sum_list [0, (1 / 10) / 3, 9 / 10, (1 / 10) / 3, (1 / 10) / 3 :: rat] = 1"
    by simp
qed

theorem true_dist_correct_witness:
  "wf2 \<lparr>ncols = 5, rows = [[1, 2, 3, 4, 5], [1, 2, 3, 4, 5], [1, 2, 3, 4, 5 :: int]]\<rparr> \<and>
   forward (\<lambda>x t. rows t) (LabelSmoothing_init 5 3 (1 / 10))
     \<lparr>ncols = 5, rows = [[1, 2, 3, 4, 5], [1, 2, 3, 4, 5], [1, 2, 3, 4, 5 :: int]]\<rparr> [2, 3, 4] =
     (Inr [[1 / 30, 1 / 30, 9 / 10, 0, 1 / 30], [0, 0, 0, 0, 0], [1 / 30, 1 / 30, 1 / 30, 0, 9 / 10]],
      (LabelSmoothing_init 5 3 (1 / 10))
        \<lparr>true_dist := Some \<lparr>ncols = 5, rows =
           [[1 / 30, 1 / 30, 9 / 10, 0, 1 / 30], [0, 0, 0, 0, 0],
            [1 / 30, 1 / 30, 1 / 30, 0, 9 / 10]]\<rparr>\<rparr>)"
proof -
  let ?x = "\<lparr>ncols = 5, rows = [[1, 2, 3, 4, 5], [1, 2, 3, 4, 5], [1, 2, 3, 4, 5 :: int]]\<rparr>"
  let ?tg = "[2, 3, 4 :: int]"
  let ?kl = "\<lambda>(x :: int tensor2) (t :: rat tensor2). rows t"
  have w: "wf2 ?x"
    by (simp add: wf2_def)
  then have h: "wf2 ?x \<and> int (ncols ?x) = 5 \<and> (3::int) \<le> 5 \<and> length ?tg = length (rows ?x) \<and>
      (\<forall>t \<in> set ?tg. 0 \<le> t \<and> t < 5) \<and> (0::int) \<le> 3 \<and> (3::int) < 5"
    by simp
  have d: "spec_true_dist 5 5 3 (1 / 10) ?tg =
      \<lparr>ncols = 5, rows = [[1 / 30, 1 / 30, 9 / 10, 0, 1 / 30], [0, 0, 0, 0, 0],
                           [1 / 30, 1 / 30, 1 / 30, 0, 9 / 10]]\<rparr>"
    by (simp add: spec_true_dist_def upt_rec [of _ 5]
        upt_rec [of _ "Suc 0"] numeral_eq_Suc)
  from true_dist_correct [where x = ?x and sz = 5 and tg = ?tg and pidx = 3 and kl = ?kl
      and sm = "1 / 10"] h
  have "forward ?kl (LabelSmoothing_init 5 3 (1 / 10)) ?x ?tg =
      (Inr (rows (spec_true_dist (ncols ?x) 5 3 (1 / 10) ?tg)),
       (LabelSmoothing_init 5 3 (1 / 10))
         \<lparr>true_dist := Some (spec_true_dist (ncols ?x) 5 3 (1 / 10) ?tg)\<rparr>)"
    by blast
  with w show ?thesis
    by (simp add: d)
qed

text \<open>
  Claim C7. When the second dimension of the output differs from the configured size,
  \<open>forward\<close> fails with the assertion error: no loss is computed and the object is left as
  it was. When the two are equal, \<open>forward\<close> does not fail with the assertion error.
\<close>

theorem forward_size_assertion:
  "(int (ncols x) \<noteq> size_v self \<longrightarrow> forward kl self x tg = (Inl AssertionError, self)) \<and>
   (int (ncols x) = size_v self \<longrightarrow> fst (forward kl self x tg) \<noteq> Inl AssertionError)"
proof (intro conjI impI)
  assume "int (ncols x) \<noteq> size_v self"
  then show "forward kl self x tg = (Inl AssertionError, self)"
    by (simp add: forward_def)
next
  assume eq: "int (ncols x) = size_v self"
  show "fst (forward kl self x tg) \<noteq> Inl AssertionError"
  proof
    assume "fst (forward kl self x tg) = Inl AssertionError"
    then have "forward kl self x tg = (Inl AssertionError, snd (forward kl self x tg))"
      by (metis prod.collapse)
    from forward_error_cases [OF this] eq show False by simp
  qed
qed

theorem forward_size_assertion_witness:
  "int (ncols \<lparr>ncols = 4, rows = [[1, 2, 3, 4 :: int]]\<rparr>) \<noteq> size_v (LabelSmoothing_init 5 0 (1 / 10)) \<and>
   forward (\<lambda>x t. rows t) (LabelSmoothing_init 5 0 (1 / 10)) \<lparr>ncols = 4, rows = [[1, 2, 3, 4 :: int]]\<rparr> [2] =
     (Inl AssertionError, LabelSmoothing_init 5 0 (1 / 10)) \<and>
   int (ncols \<lparr>ncols = 5, rows = [[1, 2, 3, 4, 5 :: int]]\<rparr>) = size_v (LabelSmoothing_init 5 0 (1 / 10)) \<and>
   fst (forward (\<lambda>x t. rows t) (LabelSmoothing_init 5 0 (1 / 10))
          \<lparr>ncols = 5, rows = [[1, 2, 3, 4, 5 :: int]]\<rparr> [2]) \<noteq> Inl AssertionError"
proof -
  let ?kl = "\<lambda>(x :: int tensor2) (t :: rat tensor2). rows t"
  let ?self = "LabelSmoothing_init 5 0 (1 / 10)"
  let ?x4 = "\<lparr>ncols = 4, rows = [[1, 2, 3, 4 :: int]]\<rparr>"
  let ?x5 = "\<lparr>ncols = 5, rows = [[1, 2, 3, 4, 5 :: int]]\<rparr>"
  have n4: "int (ncols ?x4) \<noteq> size_v ?self" and n5: "int (ncols ?x5) = size_v ?self"
    by (simp_all add: LabelSmoothing_init_def)
  from forward_size_assertion [of ?x4 ?self ?kl "[2]"] n4
  have a: "forward ?kl ?self ?x4 [2] = (Inl AssertionError, ?self)"
    by blast
  from forward_size_assertion [of ?x5 ?self ?kl "[2]"] n5
  have b: "fst (forward ?kl ?self ?x5 [2]) \<noteq> Inl AssertionError"
    by blast
  from n4 a n5 b show ?thesis
    by blast
qed




section \<open>Properties of run_epoch\<close>

subsection \<open>One batch\<close>

lemma run_batch_no_target:
  "target b = None \<Longrightarrow> run_batch c mode k i b (w, l) = (Some AttributeError, w, l)"
  by (simp add: run_batch_def)

lemma run_batch_train:
  assumes "is_training mode" "k \<noteq> 0" "target b = Some f"
  shows "\<exists>w' l'. run_batch c mode k i b (w, l) = (None, w', l') \<and>
     train_state w' = (train_state w)
       \<lparr>step := step (train_state w) + 1,
        samples := samples (train_state w) + int (length (rows (src b))),
        tokens := tokens (train_state w) + int (ntokens f),
        accum_step := accum_step (train_state w) + (if int i mod k = 0 then 1 else 0)\<rparr> \<and>
     count_list (trace w') Backward = count_list (trace w) Backward + 1 \<and>
     count_list (trace w') OptimizerStep =
       count_list (trace w) OptimizerStep + (if int i mod k = 0 then 1 else 0) \<and>
     count_list (trace w') OptimizerZeroGrad =
       count_list (trace w) OptimizerZeroGrad + (if int i mod k = 0 then 1 else 0) \<and>
     count_list (trace w') SchedulerStep = count_list (trace w) SchedulerStep + 1 \<and>
     (\<exists>x. total_loss l' = Tensor x) \<and> (\<exists>x. total_tokens l' = Tensor x)"
proof -
  have add_tensor: "\<exists>x. py_add a (Tensor y) = Tensor x" for a y
    by (cases a) simp_all
  show ?thesis
    using assms add_tensor
    by (simp add: run_batch_def train_step_def Let_def split: prod.splits)
qed

lemma run_batch_eval:
  assumes "\<not> is_training mode" "target b = Some f"
  shows "\<exists>w' l'. run_batch c mode k i b (w, l) = (None, w', l') \<and>
     train_state w' = train_state w \<and>
     trace w' = trace w @ [ModelForward, LossComputeCall] \<and>
     (\<exists>x. total_loss l' = Tensor x) \<and> (\<exists>x. total_tokens l' = Tensor x)"
proof -
  have add_tensor: "\<exists>x. py_add a (Tensor y) = Tensor x" for a y
    by (cases a) simp_all
  show ?thesis
    using assms add_tensor
    by (simp add: run_batch_def Let_def split: prod.splits)
qed

lemma run_batch_eval_caps:
  assumes "\<not> is_training mode"
  shows "run_batch (c\<lparr>backward := bw, optimizer_step := os, optimizer_zero_grad := oz,
             scheduler_step := ss\<rparr>) mode k i b s = run_batch c mode k i b s"
  using assms by (simp add: run_batch_def Let_def split: prod.splits option.splits)

subsection \<open>The loop\<close>

lemma run_loop_train:
  assumes "is_training mode" "k \<noteq> 0" "\<forall>b \<in> set bs. target b \<noteq> None"
  shows "\<exists>w' l'. run_loop c mode k i bs (w, l) = (None, w', l') \<and>
     step (train_state w') = step (train_state w) + int (length bs) \<and>
     samples (train_state w') =
       samples (train_state w) + (\<Sum>b\<leftarrow>bs. int (length (rows (src b)))) \<and>
     accum_step (train_state w') =
       accum_step (train_state w) + int (length (filter (\<lambda>j. int j mod k = 0) [i..<i + length bs])) \<and>
     count_list (trace w') Backward = count_list (trace w) Backward + length bs \<and>
     count_list (trace w') OptimizerStep =
       count_list (trace w) OptimizerStep + length (filter (\<lambda>j. int j mod k = 0) [i..<i + length bs]) \<and>
     count_list (trace w') OptimizerZeroGrad =
       count_list (trace w) OptimizerZeroGrad + length (filter (\<lambda>j. int j mod k = 0) [i..<i + length bs]) \<and>
     count_list (trace w') SchedulerStep = count_list (trace w) SchedulerStep + length bs \<and>
     (bs \<noteq> [] \<longrightarrow> (\<exists>x. total_loss l' = Tensor x) \<and> (\<exists>x. total_tokens l' = Tensor x))"
  using assms(3)
proof (induction bs arbitrary: i w l)
  case Nil
  show ?case by simp
next
  case (Cons b bs)
  from Cons.prems obtain f where f: "target b = Some f"
    by auto
  from run_batch_train [OF assms(1,2) f, of c i w l] obtain w1 l1 where
    b: "run_batch c mode k i b (w, l) = (None, w1, l1)"
    and ts: "train_state w1 = (train_state w)
       \<lparr>step := step (train_state w) + 1,
        samples := samples (train_state w) + int (length (rows (src b))),
        tokens := tokens (train_state w) + int (ntokens f),
        accum_step := accum_step (train_state w) + (if int i mod k = 0 then 1 else 0)\<rparr>"
    and tr: "count_list (trace w1) Backward = count_list (trace w) Backward + 1"
      "count_list (trace w1) OptimizerStep =
         count_list (trace w) OptimizerStep + (if int i mod k = 0 then 1 else 0)"
      "count_list (trace w1) OptimizerZeroGrad =
         count_list (trace w) OptimizerZeroGrad + (if int i mod k = 0 then 1 else 0)"
      "count_list (trace w1) SchedulerStep = count_list (trace w) SchedulerStep + 1"
    and t1: "\<exists>x. total_loss l1 = Tensor x" "\<exists>x. total_tokens l1 = Tensor x"
    by blast
  from Cons.prems have "\<forall>b \<in> set bs. target b \<noteq> None"
    by simp
  from Cons.IH [OF this, of "Suc i" w1 l1] obtain w' l' where
    r: "run_loop c mode k (Suc i) bs (w1, l1) = (None, w', l')"
    and ih: "step (train_state w') = step (train_state w1) + int (length bs)"
      "samples (train_state w') =
         samples (train_state w1) + (\<Sum>b\<leftarrow>bs. int (length (rows (src b))))"
      "accum_step (train_state w') =
         accum_step (train_state w1) +
         int (length (filter (\<lambda>j. int j mod k = 0) [Suc i..<Suc i + length bs]))"
      "count_list (trace w') Backward = count_list (trace w1) Backward + length bs"
      "count_list (trace w') OptimizerStep =
         count_list (trace w1) OptimizerStep +
         length (filter (\<lambda>j. int j mod k = 0) [Suc i..<Suc i + length bs])"
      "count_list (trace w') OptimizerZeroGrad =
         count_list (trace w1) OptimizerZeroGrad +
         length (filter (\<lambda>j. int j mod k = 0) [Suc i..<Suc i + length bs])"
      "count_list (trace w') SchedulerStep = count_list (trace w1) SchedulerStep + length bs"
    and t': "bs \<noteq> [] \<longrightarrow> (\<exists>x. total_loss l' = Tensor x) \<and> (\<exists>x. total_tokens l' = Tensor x)"
    by blast
  have up: "[i..<i + length (b # bs)] = i # [Suc i..<Suc i + length bs]"
    by (simp add: upt_rec)
  have tens: "(\<exists>x. total_loss l' = Tensor x) \<and> (\<exists>x. total_tokens l' = Tensor x)"
  proof (cases bs)
    case Nil
    with r t1 show ?thesis by simp
  next
    case (Cons a list)
    with t' show ?thesis by simp
  qed
  have "run_loop c mode k i (b # bs) (w, l) = (None, w', l')"
    using b r by simp
  moreover have "step (train_state w') = step (train_state w) + int (length (b # bs))"
    using ih(1) ts by simp
  moreover have "samples (train_state w') =
      samples (train_state w) + (\<Sum>b\<leftarrow>b # bs. int (length (rows (src b))))"
    using ih(2) ts by simp
  moreover have "accum_step (train_state w') = accum_step (train_state w) +
      int (length (filter (\<lambda>j. int j mod k = 0) [i..<i + length (b # bs)]))"
    unfolding up using ih(3) ts by simp
  moreover have "count_list (trace w') Backward = count_list (trace w) Backward + length (b # bs)"
    using ih(4) tr(1) by simp
  moreover have "count_list (trace w') OptimizerStep = count_list (trace w) OptimizerStep +
      length (filter (\<lambda>j. int j mod k = 0) [i..<i + length (b # bs)])"
    unfolding up using ih(5) tr(2) by simp
  moreover have "count_list (trace w') OptimizerZeroGrad = count_list (trace w) OptimizerZeroGrad +
      length (filter (\<lambda>j. int j mod k = 0) [i..<i + length (b # bs)])"
    unfolding up using ih(6) tr(3) by simp
  moreover have "count_list (trace w') SchedulerStep =
      count_list (trace w) SchedulerStep + length (b # bs)"
    using ih(7) tr(4) by simp
  ultimately show ?case
    using tens by blast
qed

lemma run_loop_eval:
  assumes "\<not> is_training mode"
  shows "\<exists>r w' l'. run_loop c mode k i bs (w, l) = (r, w', l') \<and>
     train_state w' = train_state w \<and>
     (\<exists>evs. trace w' = trace w @ evs \<and> set evs \<subseteq> {ModelForward, LossComputeCall}) \<and>
     ((\<forall>b \<in> set bs. target b \<noteq> None) \<longrightarrow> r = None \<and>
        (bs \<noteq> [] \<longrightarrow> (\<exists>x. total_loss l' = Tensor x) \<and> (\<exists>x. total_tokens l' = Tensor x)))"
proof (induction bs arbitrary: i w l)
  case Nil
  show ?case by simp
next
  case (Cons b bs)
  show ?case
  proof (cases "target b")
    case None
    then show ?thesis
      by (simp add: run_batch_no_target)
  next
    case (Some f)
    from run_batch_eval [OF assms Some, of c k i w l] obtain w1 l1 where
      b: "run_batch c mode k i b (w, l) = (None, w1, l1)"
      and ts: "train_state w1 = train_state w"
      and tr: "trace w1 = trace w @ [ModelForward, LossComputeCall]"
      and t1: "\<exists>x. total_loss l1 = Tensor x" "\<exists>x. total_tokens l1 = Tensor x"
      by blast
    from Cons.IH [of "Suc i" w1 l1] obtain r w' l' evs where
      r: "run_loop c mode k (Suc i) bs (w1, l1) = (r, w', l')"
      and ih: "train_state w' = train_state w1" "trace w' = trace w1 @ evs"
        "set evs \<subseteq> {ModelForward, LossComputeCall}"
      and ok: "(\<forall>b \<in> set bs. target b \<noteq> None) \<longrightarrow> r = None \<and>
        (bs \<noteq> [] \<longrightarrow> (\<exists>x. total_loss l' = Tensor x) \<and> (\<exists>x. total_tokens l' = Tensor x))"
      by blast
    have tens: "(\<exists>x. total_loss l' = Tensor x) \<and> (\<exists>x. total_tokens l' = Tensor x)"
      if "\<forall>b \<in> set bs. target b \<noteq> None"
    proof (cases bs)
      case Nil
      with r t1 show ?thesis by simp
    next
      case (Cons a list)
      with ok that show ?thesis by simp
    qed
    have "run_loop c mode k i (b # bs) (w, l) = (r, w', l')"
      using b r by simp
    moreover have "train_state w' = train_state w"
      using ih(1) ts by simp
    moreover have "trace w' = trace w @ ([ModelForward, LossComputeCall] @ evs)"
      using ih(2) tr by simp
    moreover have "set ([ModelForward, LossComputeCall] @ evs) \<subseteq> {ModelForward, LossComputeCall}"
      using ih(3) by simp
    moreover have "(\<forall>b \<in> set (b # bs). target b \<noteq> None) \<longrightarrow> r = None \<and>
        (b # bs \<noteq> [] \<longrightarrow> (\<exists>x. total_loss l' = Tensor x) \<and> (\<exists>x. total_tokens l' = Tensor x))"
      using ok tens by simp
    ultimately show ?thesis
      by blast
  qed
qed

lemma run_loop_eval_caps:
  assumes "\<not> is_training mode"
  shows "run_loop (c\<lparr>backward := bw, optimizer_step := os, optimizer_zero_grad := oz,
             scheduler_step := ss\<rparr>) mode k i bs s = run_loop c mode k i bs s"
  by (induction bs arbitrary: i s)
    (simp_all add: run_batch_eval_caps [OF assms] split: prod.splits option.splits)

subsection \<open>The epoch\<close>

lemma run_epoch_world:
  "snd (run_epoch c bs mode k w) =
     fst (snd (run_loop c mode k 0 bs
       (w, \<lparr>total_tokens = Py 0, total_loss = Py 0, tokens_w = Py 0, n_accum = 0\<rparr>)))"
  by (simp add: run_epoch_def split: prod.splits option.splits sum.splits)

lemma run_epoch_returns:
  assumes "run_loop c mode k 0 bs
       (w, \<lparr>total_tokens = Py 0, total_loss = Py 0, tokens_w = Py 0, n_accum = 0\<rparr>) = (None, w', l')"
    and "\<exists>x. total_loss l' = Tensor x" "\<exists>x. total_tokens l' = Tensor x"
  shows "\<exists>m. run_epoch c bs mode k w = (Inr (m, train_state w'), w')"
  using assms by (auto simp: run_epoch_def)

lemma filter_upt_card: "length (filter P [0..<n]) = card {i. i < n \<and> P i}"
proof -
  have "length (filter P [0..<n]) = card {i. i < length [0..<n] \<and> P ([0..<n] ! i)}"
    by (rule length_filter_conv_card)
  also have "{i. i < length [0..<n] \<and> P ([0..<n] ! i)} = {i. i < n \<and> P i}"
    by auto
  finally show ?thesis .
qed

lemma run_epoch_train:
  assumes "is_training mode" "k \<noteq> 0" "\<forall>b \<in> set bs. target b \<noteq> None"
  shows "\<exists>r w'. run_epoch c bs mode k w = (r, w') \<and>
     step (train_state w') = step (train_state w) + int (length bs) \<and>
     samples (train_state w') =
       samples (train_state w) + (\<Sum>b\<leftarrow>bs. int (length (rows (src b)))) \<and>
     accum_step (train_state w') =
       accum_step (train_state w) + int (card {i. i < length bs \<and> int i mod k = 0}) \<and>
     count_list (trace w') Backward = count_list (trace w) Backward + length bs \<and>
     count_list (trace w') OptimizerStep =
       count_list (trace w) OptimizerStep + card {i. i < length bs \<and> int i mod k = 0} \<and>
     count_list (trace w') OptimizerZeroGrad =
       count_list (trace w) OptimizerZeroGrad + card {i. i < length bs \<and> int i mod k = 0} \<and>
     count_list (trace w') SchedulerStep = count_list (trace w) SchedulerStep + length bs \<and>
     (bs \<noteq> [] \<longrightarrow> (\<exists>m. r = Inr (m, train_state w')))"
proof -
  let ?l0 = "\<lparr>total_tokens = Py 0, total_loss = Py 0, tokens_w = Py 0, n_accum = 0\<rparr>"
  from run_loop_train [OF assms, of c 0 w ?l0] obtain w' l' where
    r: "run_loop c mode k 0 bs (w, ?l0) = (None, w', l')"
    and c: "step (train_state w') = step (train_state w) + int (length bs)"
      "samples (train_state w') =
         samples (train_state w) + (\<Sum>b\<leftarrow>bs. int (length (rows (src b))))"
      "accum_step (train_state w') = accum_step (train_state w) +
         int (length (filter (\<lambda>j. int j mod k = 0) [0..<0 + length bs]))"
      "count_list (trace w') Backward = count_list (trace w) Backward + length bs"
      "count_list (trace w') OptimizerStep = count_list (trace w) OptimizerStep +
         length (filter (\<lambda>j. int j mod k = 0) [0..<0 + length bs])"
      "count_list (trace w') OptimizerZeroGrad = count_list (trace w) OptimizerZeroGrad +
         length (filter (\<lambda>j. int j mod k = 0) [0..<0 + length bs])"
      "count_list (trace w') SchedulerStep = count_list (trace w) SchedulerStep + length bs"
    and t: "bs \<noteq> [] \<longrightarrow> (\<exists>x. total_loss l' = Tensor x) \<and> (\<exists>x. total_tokens l' = Tensor x)"
    by blast
  have w': "snd (run_epoch c bs mode k w) = w'"
    using r by (simp add: run_epoch_world)
  have ret: "\<exists>m. fst (run_epoch c bs mode k w) = Inr (m, train_state w')" if "bs \<noteq> []"
  proof -
    from that t have "\<exists>x. total_loss l' = Tensor x" "\<exists>x. total_tokens l' = Tensor x"
      by simp_all
    from run_epoch_returns [OF r this] show ?thesis
      by auto
  qed
  let ?r = "fst (run_epoch c bs mode k w)"
  have "run_epoch c bs mode k w = (?r, w')"
    using w' by (metis prod.collapse)
  with c ret have "run_epoch c bs mode k w = (?r, w') \<and>
     step (train_state w') = step (train_state w) + int (length bs) \<and>
     samples (train_state w') =
       samples (train_state w) + (\<Sum>b\<leftarrow>bs. int (length (rows (src b)))) \<and>
     accum_step (train_state w') =
       accum_step (train_state w) + int (card {i. i < length bs \<and> int i mod k = 0}) \<and>
     count_list (trace w') Backward = count_list (trace w) Backward + length bs \<and>
     count_list (trace w') OptimizerStep =
       count_list (trace w) OptimizerStep + card {i. i < length bs \<and> int i mod k = 0} \<and>
     count_list (trace w') OptimizerZeroGrad =
       count_list (trace w) OptimizerZeroGrad + card {i. i < length bs \<and> int i mod k = 0} \<and>
     count_list (trace w') SchedulerStep = count_list (trace w) SchedulerStep + length bs \<and>
     (bs \<noteq> [] \<longrightarrow> (\<exists>m. ?r = Inr (m, train_state w')))"
    by (simp add: filter_upt_card)
  then show ?thesis
    by blast
qed

lemma run_epoch_eval:
  assumes "\<not> is_training mode"
  shows "train_state (snd (run_epoch c bs mode k w)) = train_state w \<and>
     (\<exists>evs. trace (snd (run_epoch c bs mode k w)) = trace w @ evs \<and>
            set evs \<subseteq> {ModelForward, LossComputeCall}) \<and>
     (\<forall>m ts. fst (run_epoch c bs mode k w) = Inr (m, ts) \<longrightarrow> ts = train_state w) \<and>
     (bs \<noteq> [] \<and> (\<forall>b \<in> set bs. target b \<noteq> None) \<longrightarrow>
        (\<exists>m. fst (run_epoch c bs mode k w) = Inr (m, train_state w)))"
proof -
  let ?l0 = "\<lparr>total_tokens = Py 0, total_loss = Py 0, tokens_w = Py 0, n_accum = 0\<rparr>"
  from run_loop_eval [OF assms, of c k 0 bs w ?l0] obtain r w' l' evs where
    r: "run_loop c mode k 0 bs (w, ?l0) = (r, w', l')"
    and ts: "train_state w' = train_state w"
    and tr: "trace w' = trace w @ evs" "set evs \<subseteq> {ModelForward, LossComputeCall}"
    and ok: "(\<forall>b \<in> set bs. target b \<noteq> None) \<longrightarrow> r = None \<and>
        (bs \<noteq> [] \<longrightarrow> (\<exists>x. total_loss l' = Tensor x) \<and> (\<exists>x. total_tokens l' = Tensor x))"
    by blast
  have w': "snd (run_epoch c bs mode k w) = w'"
    using r by (simp add: run_epoch_world)
  have same: "ts' = train_state w" if "fst (run_epoch c bs mode k w) = Inr (m, ts')" for m ts'
    using that r ts by (auto simp: run_epoch_def split: option.splits sum.splits)
  have ret: "\<exists>m. fst (run_epoch c bs mode k w) = Inr (m, train_state w)"
    if "bs \<noteq> []" "\<forall>b \<in> set bs. target b \<noteq> None"
  proof -
    from that ok have n: "r = None" and "\<exists>x. total_loss l' = Tensor x" "\<exists>x. total_tokens l' = Tensor x"
      by simp_all
    from run_epoch_returns [OF r [unfolded n] this(2,3)] ts show ?thesis
      by auto
  qed
  from ts tr same ret show ?thesis
    unfolding w' by blast
qed

lemma run_epoch_eval_caps:
  assumes "\<not> is_training mode"
  shows "run_epoch (c\<lparr>backward := bw, optimizer_step := os, optimizer_zero_grad := oz,
             scheduler_step := ss\<rparr>) bs mode k w = run_epoch c bs mode k w"
  by (simp add: run_epoch_def run_loop_eval_caps [OF assms])

lemma fmul_fdiv_cancel: "n \<noteq> 0 \<Longrightarrow> fmul (fdiv v (Fin n)) (Fin n) = v"
  by (cases v) auto

lemma scenario_batch_built: "Batch_init scenario_src (Some scenario_tgt) 2 = Inr scenario_batch"
proof -
  have "wf2 scenario_tgt"
    by (simp add: wf2_def scenario_tgt_def)
  from Batch_init_Some [OF this, of scenario_src 2] show ?thesis
    by (simp add: scenario_batch_def scenario_src_def scenario_tgt_def drop_last_col_def
        drop_first_col_def unsqueeze_m2_def ne_pad_def sum_bool_def upt_rec [of _ 3]
        upt_rec [of _ "Suc 0"] numeral_eq_Suc)
qed

lemma scenario_batch_fields:
  "target scenario_batch \<noteq> None" "length (rows (src scenario_batch)) = 2"
  by (simp_all add: scenario_batch_def scenario_src_def)

subsection \<open>The calls as the collaborators see them\<close>

lemma run_batch_train_grows:
  assumes "is_training mode" "k \<noteq> 0" "target b = Some f0" "grows_by f c m lc d a z sc"
  shows "f (ext (fst (snd (run_batch c mode k i b (w, l))))) =
     f (ext w) + m + lc + d + (if int i mod k = 0 then a + z else 0) + sc"
proof -
  obtain out e1 where mf:
    "model_forward c (src b) (tgt f0) (src_mask b) (tgt_mask f0) (ext w) = (out, e1)"
    by (cases "model_forward c (src b) (tgt f0) (src_mask b) (tgt_mask f0) (ext w)")
  obtain loss nd e2 where lf:
    "loss_compute c out (tgt_y f0) (ntokens f0) e1 = ((loss, nd), e2)"
    by (cases "loss_compute c out (tgt_y f0) (ntokens f0) e1") auto
  from assms(4) have g:
    "\<And>s t sm tm e. f (snd (model_forward c s t sm tm e)) = f e + m"
    "\<And>out y n e. f (snd (loss_compute c out y n e)) = f e + lc"
    "\<And>nd e. f (backward c nd e) = f e + d"
    "\<And>e. f (optimizer_step c e) = f e + a"
    "\<And>e. f (optimizer_zero_grad c e) = f e + z"
    "\<And>e. f (scheduler_step c e) = f e + sc"
    by (simp_all add: grows_by_def)
  have e1: "f e1 = f (ext w) + m"
    using g(1) [of "src b" "tgt f0" "src_mask b" "tgt_mask f0" "ext w"] mf by simp
  have e2: "f e2 = f e1 + lc"
    using g(2) [of out "tgt_y f0" "ntokens f0" e1] lf by simp
  show ?thesis
    using assms(1,2,3) e1 e2
    by (simp add: run_batch_def train_step_def Let_def mf lf g(3-6))
qed

lemma run_loop_train_grows:
  assumes "is_training mode" "k \<noteq> 0" "\<forall>b \<in> set bs. target b \<noteq> None"
    and g: "grows_by f c m lc d a z sc"
  shows "f (ext (fst (snd (run_loop c mode k i bs (w, l))))) =
     f (ext w) + length bs * (m + lc + d + sc) +
     length (filter (\<lambda>j. int j mod k = 0) [i..<i + length bs]) * (a + z)"
  using assms(3)
proof (induction bs arbitrary: i w l)
  case Nil
  show ?case by simp
next
  case (Cons b bs)
  from Cons.prems obtain f0 where f0: "target b = Some f0"
    by auto
  from run_batch_train [OF assms(1,2) f0, of c i w l] obtain w1 l1 where
    b: "run_batch c mode k i b (w, l) = (None, w1, l1)"
    by blast
  from run_batch_train_grows [OF assms(1,2) f0 g, of i w l] b
  have w1: "f (ext w1) = f (ext w) + m + lc + d + (if int i mod k = 0 then a + z else 0) + sc"
    by simp
  from Cons.prems have "\<forall>b \<in> set bs. target b \<noteq> None"
    by simp
  from Cons.IH [OF this, of "Suc i" w1 l1]
  have ih: "f (ext (fst (snd (run_loop c mode k (Suc i) bs (w1, l1))))) =
     f (ext w1) + length bs * (m + lc + d + sc) +
     length (filter (\<lambda>j. int j mod k = 0) [Suc i..<Suc i + length bs]) * (a + z)" .
  have up: "[i..<i + length (b # bs)] = i # [Suc i..<Suc i + length bs]"
    by (simp add: upt_rec)
  have "run_loop c mode k i (b # bs) (w, l) = run_loop c mode k (Suc i) bs (w1, l1)"
    using b by simp
  then show ?case
    unfolding up using ih w1 by (simp add: algebra_simps)
qed

lemma run_epoch_train_grows:
  assumes "is_training mode" "k \<noteq> 0" "\<forall>b \<in> set bs. target b \<noteq> None"
    and "grows_by f c m lc d a z sc"
  shows "f (ext (snd (run_epoch c bs mode k w))) =
     f (ext w) + length bs * (m + lc + d + sc) +
     card {i. i < length bs \<and> int i mod k = 0} * (a + z)"
  using run_loop_train_grows [OF assms, of 0 w]
  by (simp add: run_epoch_world filter_upt_card)

lemma two_epochs:
  assumes "is_training mode" "length bs1 = 5" "length bs2 = 5"
    and "\<forall>b \<in> set bs1 \<union> set bs2. target b \<noteq> None \<and> length (rows (src b)) = 2"
    and "train_state w = TrainState_init"
  shows "\<exists>r1 w1 m w2. run_epoch c bs1 mode 2 w = (r1, w1) \<and>
     run_epoch c bs2 mode 2 w1 = (Inr (m, train_state w2), w2) \<and>
     step (train_state w2) = 10 \<and> accum_step (train_state w2) = 6 \<and>
     samples (train_state w2) = 20"
proof -
  have five: "card {i. i < (5::nat) \<and> int i mod 2 = 0} = 3"
  proof -
    have "length (filter (\<lambda>i. int i mod 2 = 0) [0..<5]) = 3"
      by code_simp
    then show ?thesis
      by (simp only: filter_upt_card)
  qed
  have sizes: "(\<Sum>b\<leftarrow>bs. int (length (rows (src b)))) = 10"
    if "length bs = 5" "\<forall>b \<in> set bs. length (rows (src b)) = 2" for bs :: "Batch list"
  proof -
    have "map (\<lambda>b. int (length (rows (src b)))) bs = map (\<lambda>b. 2) bs"
      using that(2) by (intro map_cong) simp_all
    then have "(\<Sum>b\<leftarrow>bs. int (length (rows (src b)))) = (\<Sum>b\<leftarrow>bs. 2)"
      by (rule arg_cong)
    also have "\<dots> = 10"
      using that(1) by (simp add: sum_list_triv)
    finally show ?thesis .
  qed
  have t1: "\<forall>b \<in> set bs1. target b \<noteq> None" and t2: "\<forall>b \<in> set bs2. target b \<noteq> None"
    and s1: "\<forall>b \<in> set bs1. length (rows (src b)) = 2"
    and s2: "\<forall>b \<in> set bs2. length (rows (src b)) = 2"
    using assms(4) by simp_all
  have k: "(2::int) \<noteq> 0"
    by simp
  from run_epoch_train [OF assms(1) k t1, of c w] obtain r1 w1 where
    e1: "run_epoch c bs1 mode 2 w = (r1, w1)"
    and c1: "step (train_state w1) = step (train_state w) + int (length bs1)"
      "samples (train_state w1) =
         samples (train_state w) + (\<Sum>b\<leftarrow>bs1. int (length (rows (src b))))"
      "accum_step (train_state w1) =
         accum_step (train_state w) + int (card {i. i < length bs1 \<and> int i mod 2 = 0})"
    by blast
  from run_epoch_train [OF assms(1) k t2, of c w1] obtain r2 w2 where
    e2: "run_epoch c bs2 mode 2 w1 = (r2, w2)"
    and c2: "step (train_state w2) = step (train_state w1) + int (length bs2)"
      "samples (train_state w2) =
         samples (train_state w1) + (\<Sum>b\<leftarrow>bs2. int (length (rows (src b))))"
      "accum_step (train_state w2) =
         accum_step (train_state w1) + int (card {i. i < length bs2 \<and> int i mod 2 = 0})"
    and ret: "bs2 \<noteq> [] \<longrightarrow> (\<exists>m. r2 = Inr (m, train_state w2))"
    by blast
  from assms(3) ret obtain m where m: "r2 = Inr (m, train_state w2)"
    by auto
  have "step (train_state w2) = 10"
    using c1(1) c2(1) assms(2,3,5) by (simp add: TrainState_init_def)
  moreover have "accum_step (train_state w2) = 6"
    using c1(3) c2(3) assms(2,3,5) five by (simp add: TrainState_init_def)
  moreover have "samples (train_state w2) = 20"
    using c1(2) c2(2) sizes [OF assms(2) s1] sizes [OF assms(3) s2] assms(5)
    by (simp add: TrainState_init_def)
  ultimately show ?thesis
    using e1 e2 m by blast
qed

text \<open>
  Claim C3. In a training mode, over \<open>N\<close> batches that all carry a target and with an
  accumulation interval \<open>k \<ge> 1\<close>, \<^verbatim>\<open>accum_step\<close> grows by the number of batch indices
  \<open>i < N\<close> with \<open>i mod k = 0\<close>, \<^verbatim>\<open>optimizer.step\<close> is called that many times, and
  \<^verbatim>\<open>scheduler.step\<close> is called \<open>N\<close> times, whatever \<open>k\<close> is. The calls are counted twice:
  in the trace of the run, and in the state of the collaborators, where any number that
  \<^verbatim>\<open>optimizer.step\<close> alone raises by one has grown by the number of those indices, and
  any number that \<^verbatim>\<open>scheduler.step\<close> alone raises by one has grown by \<open>N\<close>.
\<close>

theorem accumulation_cadence:
  assumes "is_training mode" "1 \<le> k" "\<forall>b \<in> set bs. target b \<noteq> None"
  shows "accum_step (train_state (snd (run_epoch c bs mode k w))) =
       accum_step (train_state w) + int (card {i. i < length bs \<and> int i mod k = 0}) \<and>
     count_list (trace (snd (run_epoch c bs mode k w))) OptimizerStep =
       count_list (trace w) OptimizerStep + card {i. i < length bs \<and> int i mod k = 0} \<and>
     count_list (trace (snd (run_epoch c bs mode k w))) SchedulerStep =
       count_list (trace w) SchedulerStep + length bs \<and>
     (counts_optimizer_steps n_opt c \<longrightarrow>
        n_opt (ext (snd (run_epoch c bs mode k w))) =
          n_opt (ext w) + card {i. i < length bs \<and> int i mod k = 0}) \<and>
     (counts_scheduler_steps n_sched c \<longrightarrow>
        n_sched (ext (snd (run_epoch c bs mode k w))) = n_sched (ext w) + length bs)"
proof -
  from assms(2) have k: "k \<noteq> 0"
    by simp
  have tr: "accum_step (train_state (snd (run_epoch c bs mode k w))) =
       accum_step (train_state w) + int (card {i. i < length bs \<and> int i mod k = 0}) \<and>
     count_list (trace (snd (run_epoch c bs mode k w))) OptimizerStep =
       count_list (trace w) OptimizerStep + card {i. i < length bs \<and> int i mod k = 0} \<and>
     count_list (trace (snd (run_epoch c bs mode k w))) SchedulerStep =
       count_list (trace w) SchedulerStep + length bs"
    using run_epoch_train [OF assms(1) k assms(3), of c w] by force
  have opt: "n_opt (ext (snd (run_epoch c bs mode k w))) =
      n_opt (ext w) + card {i. i < length bs \<and> int i mod k = 0}"
    if "counts_optimizer_steps n_opt c"
    using run_epoch_train_grows [OF assms(1) k assms(3), of n_opt c 0 0 0 1 0 0 w] that
    by (simp add: counts_optimizer_steps_def)
  have sch: "n_sched (ext (snd (run_epoch c bs mode k w))) = n_sched (ext w) + length bs"
    if "counts_scheduler_steps n_sched c"
    using run_epoch_train_grows [OF assms(1) k assms(3), of n_sched c 0 0 0 0 0 1 w] that
    by (simp add: counts_scheduler_steps_def)
  from tr opt sch show ?thesis
    by blast
qed

theorem accumulation_cadence_witness:
  "is_training ''train'' \<and> (1::int) \<le> 2 \<and>
   accum_step (train_state (snd (run_epoch counting_caps (replicate 3 scenario_batch) ''train'' 2
     counting_world))) = 2 \<and>
   count_list (trace (snd (run_epoch counting_caps (replicate 3 scenario_batch) ''train'' 2
     counting_world))) OptimizerStep = 2 \<and>
   count_list (trace (snd (run_epoch counting_caps (replicate 3 scenario_batch) ''train'' 2
     counting_world))) SchedulerStep = 3 \<and>
   calls_step (ext (snd (run_epoch counting_caps (replicate 3 scenario_batch) ''train'' 2
     counting_world))) = 2 \<and>
   calls_sched (ext (snd (run_epoch counting_caps (replicate 3 scenario_batch) ''train'' 2
     counting_world))) = 3"
proof -
  have tr: "is_training ''train''"
    by (simp add: is_training_def)
  have k: "(1::int) \<le> 2"
    by simp
  have tg: "\<forall>b \<in> set (replicate 3 scenario_batch). target b \<noteq> None"
    by (simp add: scenario_batch_fields)
  have opt: "counts_optimizer_steps calls_step counting_caps"
    by (simp add: counts_optimizer_steps_def grows_by_def counting_caps_def)
  have sch: "counts_scheduler_steps calls_sched counting_caps"
    by (simp add: counts_scheduler_steps_def grows_by_def counting_caps_def)
  have "length (filter (\<lambda>i. int i mod 2 = 0) [0..<3]) = 2"
    by code_simp
  then have three: "card {i. i < (3::nat) \<and> int i mod 2 = 0} = 2"
    by (simp only: filter_upt_card)
  from accumulation_cadence [OF tr k tg, of counting_caps counting_world calls_step calls_sched]
    tr opt sch three
  show ?thesis
    by (simp add: counting_world_def TrainState_init_def)
qed

text \<open>
  Claim C4, as amended. Two epochs in a training mode over 5 batches each, every batch of
  batch size 2 and with a target, \<^verbatim>\<open>accum_iter = 2\<close> and one \<^verbatim>\<open>TrainState\<close> that starts at
  zero and is passed from the first epoch to the second: both epochs return, and the
  state ends with \<^verbatim>\<open>step = 10\<close>, \<^verbatim>\<open>samples = 20\<close> and \<^verbatim>\<open>accum_step = 6\<close>, since the batch
  index starts again at 0 in each epoch and the indices 0, 2, 4 update in both.
\<close>

theorem two_epochs_counters:
  assumes "is_training mode" "length bs1 = 5" "length bs2 = 5"
    and "\<forall>b \<in> set bs1 \<union> set bs2. target b \<noteq> None \<and> length (rows (src b)) = 2"
    and "train_state w = TrainState_init"
  shows "\<exists>r1 w1 m w2. run_epoch c bs1 mode 2 w = (r1, w1) \<and>
     run_epoch c bs2 mode 2 w1 = (Inr (m, train_state w2), w2) \<and>
     step (train_state w2) = 10 \<and> accum_step (train_state w2) = 6 \<and>
     samples (train_state w2) = 20"
  using assms by (rule two_epochs)

theorem two_epochs_counters_witness:
  "is_training ''train'' \<and> length (replicate 5 scenario_batch) = 5 \<and>
   train_state fresh_world = TrainState_init \<and>
   (\<exists>r1 w1 m w2.
      run_epoch idle_caps (replicate 5 scenario_batch) ''train'' 2 fresh_world = (r1, w1) \<and>
      run_epoch idle_caps (replicate 5 scenario_batch) ''train'' 2 w1 =
        (Inr (m, train_state w2), w2) \<and>
      step (train_state w2) = 10 \<and> accum_step (train_state w2) = 6 \<and>
      samples (train_state w2) = 20)"
proof -
  have tr: "is_training ''train''"
    by (simp add: is_training_def)
  have len: "length (replicate 5 scenario_batch) = 5"
    by simp
  have bs: "\<forall>b \<in> set (replicate 5 scenario_batch) \<union> set (replicate 5 scenario_batch).
      target b \<noteq> None \<and> length (rows (src b)) = 2"
    by (simp add: scenario_batch_fields)
  have ts: "train_state fresh_world = TrainState_init"
    by (simp add: fresh_world_def)
  from two_epochs_counters [OF tr len len bs ts, of idle_caps] tr len ts show ?thesis
    by blast
qed

theorem two_epochs_accum_step_counterexample:
  "accum_step (train_state (snd (run_epoch idle_caps (replicate 5 scenario_batch) ''train'' 2
     (snd (run_epoch idle_caps (replicate 5 scenario_batch) ''train'' 2 fresh_world))))) = 6 \<and>
   accum_step (train_state (snd (run_epoch idle_caps (replicate 5 scenario_batch) ''train'' 2
     (snd (run_epoch idle_caps (replicate 5 scenario_batch) ''train'' 2 fresh_world))))) \<noteq> 5"
proof -
  have tr: "is_training ''train''"
    by (simp add: is_training_def)
  have len: "length (replicate 5 scenario_batch) = 5"
    by simp
  have bs: "\<forall>b \<in> set (replicate 5 scenario_batch) \<union> set (replicate 5 scenario_batch).
      target b \<noteq> None \<and> length (rows (src b)) = 2"
    by (simp add: scenario_batch_fields)
  have ts: "train_state fresh_world = TrainState_init"
    by (simp add: fresh_world_def)
  from two_epochs [OF tr len len bs ts, of idle_caps] obtain r1 w1 m w2 where
    "run_epoch idle_caps (replicate 5 scenario_batch) ''train'' 2 fresh_world = (r1, w1)"
    "run_epoch idle_caps (replicate 5 scenario_batch) ''train'' 2 w1 =
       (Inr (m, train_state w2), w2)"
    "accum_step (train_state w2) = 6"
    by blast
  then show ?thesis
    by simp
qed

text \<open>
  Claim C5. In a mode other than the two training modes, \<^verbatim>\<open>"eval"\<close> among them,
  \<^verbatim>\<open>run_epoch\<close> leaves the \<^verbatim>\<open>TrainState\<close> as it was, whether it returns or raises; the only
  calls it makes are to \<^verbatim>\<open>model.forward\<close> and \<^verbatim>\<open>loss_compute\<close>; its result does not depend
  on \<^verbatim>\<open>backward\<close>, \<^verbatim>\<open>optimizer.step\<close>, \<^verbatim>\<open>optimizer.zero_grad\<close> or \<^verbatim>\<open>scheduler.step\<close>; what it
  returns is the supplied \<^verbatim>\<open>TrainState\<close>; and it does return when there is at least one
  batch and every batch carries a target.
\<close>

theorem eval_leaves_state:
  assumes "\<not> is_training mode"
  shows "train_state (snd (run_epoch c bs mode k w)) = train_state w \<and>
     (\<exists>evs. trace (snd (run_epoch c bs mode k w)) = trace w @ evs \<and>
            set evs \<subseteq> {ModelForward, LossComputeCall}) \<and>
     (\<forall>m ts. fst (run_epoch c bs mode k w) = Inr (m, ts) \<longrightarrow> ts = train_state w) \<and>
     (bs \<noteq> [] \<and> (\<forall>b \<in> set bs. target b \<noteq> None) \<longrightarrow>
        (\<exists>m. fst (run_epoch c bs mode k w) = Inr (m, train_state w))) \<and>
     run_epoch (c\<lparr>backward := bw, optimizer_step := os, optimizer_zero_grad := oz,
                  scheduler_step := ss\<rparr>) bs mode k w = run_epoch c bs mode k w"
  using run_epoch_eval [OF assms, of c bs k w]
  by (simp add: run_epoch_eval_caps [OF assms])

theorem eval_leaves_state_witness:
  "\<not> is_training ''eval'' \<and>
   train_state (snd (run_epoch idle_caps (replicate 3 scenario_batch) ''eval'' 2
     (fresh_world\<lparr>train_state := \<lparr>step = 4, accum_step = 2, samples = 8, tokens = 20\<rparr>\<rparr>))) =
     \<lparr>step = 4, accum_step = 2, samples = 8, tokens = 20\<rparr> \<and>
   (\<exists>m. fst (run_epoch idle_caps (replicate 3 scenario_batch) ''eval'' 2
     (fresh_world\<lparr>train_state := \<lparr>step = 4, accum_step = 2, samples = 8, tokens = 20\<rparr>\<rparr>)) =
     Inr (m, \<lparr>step = 4, accum_step = 2, samples = 8, tokens = 20\<rparr>))"
proof -
  let ?w = "fresh_world\<lparr>train_state := \<lparr>step = 4, accum_step = 2, samples = 8, tokens = 20\<rparr>\<rparr>"
  let ?bs = "replicate 3 scenario_batch"
  have ev: "\<not> is_training ''eval''"
    by (simp add: is_training_def)
  have bs: "?bs \<noteq> [] \<and> (\<forall>b \<in> set ?bs. target b \<noteq> None)"
    by (simp add: scenario_batch_fields)
  have ts: "train_state ?w = \<lparr>step = 4, accum_step = 2, samples = 8, tokens = 20\<rparr>"
    by simp
  from eval_leaves_state [OF ev, of idle_caps ?bs 2 ?w] bs
  have "train_state (snd (run_epoch idle_caps ?bs ''eval'' 2 ?w)) = train_state ?w"
    and "\<exists>m. fst (run_epoch idle_caps ?bs ''eval'' 2 ?w) = Inr (m, train_state ?w)"
    by blast+
  with ev show ?thesis
    unfolding ts by blast
qed

text \<open>
  Claim C10. On the empty batch sequence \<^verbatim>\<open>run_epoch\<close> returns no mean loss in any mode:
  the totals are still the Python number 0, the division \<^verbatim>\<open>total_loss / total_tokens\<close>
  raises \<^verbatim>\<open>ZeroDivisionError\<close>, and nothing was changed or called.
\<close>

theorem empty_epoch_raises:
  "run_epoch c [] mode k w = (Inl ZeroDivisionError, w)"
  by (simp add: run_epoch_def)

section \<open>Properties of SimpleLossCompute\<close>

text \<open>
  Claim C6, as amended. A call returns the pair of the loss divided by \<^verbatim>\<open>norm\<close>, attached
  to the graph as the criterion's value is, and that quotient detached and multiplied by
  \<^verbatim>\<open>norm\<close> again; it calls the projection and the criterion once each and nothing else,
  so never \<^verbatim>\<open>backward\<close>. The first component is the criterion's value itself whenever
  \<^verbatim>\<open>norm\<close> is not 0 (rounding aside).
\<close>

theorem loss_compute_pair:
  "\<exists>display node.
     SimpleLossCompute_call self x y nrm tr =
       ((display, node), tr @ [GeneratorCall, CriterionCall]) \<and>
     item node = fdiv (item (criterion self (view2 (generator self x)) (view1 y))) (Fin nrm) \<and>
     requires_grad node =
       requires_grad (criterion self (view2 (generator self x)) (view1 y)) \<and>
     item display = fmul (item node) (Fin nrm) \<and>
     requires_grad display = False \<and>
     (nrm \<noteq> 0 \<longrightarrow>
        item display = item (criterion self (view2 (generator self x)) (view1 y))) \<and>
     count_list (tr @ [GeneratorCall, CriterionCall]) Backward = count_list tr Backward"
  by (simp add: SimpleLossCompute_call_def Let_def tensor_div_def tensor_mul_def data_def
      fmul_fdiv_cancel)

theorem loss_compute_pair_witness:
  "(4::rat) \<noteq> 0 \<and>
   SimpleLossCompute_call
     \<lparr>generator = (\<lambda>x. \<lparr>last_dim = 2, planes = [[x]]\<rparr>),
      criterion = (\<lambda>x t. \<lparr>item = Fin 6, requires_grad = True\<rparr>)\<rparr>
     [7, 8 :: rat] \<lparr>ncols = 1, rows = [[1]]\<rparr> 4 [] =
     ((\<lparr>item = Fin 6, requires_grad = False\<rparr>, \<lparr>item = Fin (3 / 2), requires_grad = True\<rparr>),
      [GeneratorCall, CriterionCall])"
proof -
  let ?self = "\<lparr>generator = (\<lambda>x :: rat list. \<lparr>last_dim = 2, planes = [[x]]\<rparr>),
      criterion = (\<lambda>(x :: rat tensor2) (t :: int list). \<lparr>item = Fin 6, requires_grad = True\<rparr>)\<rparr>"
  from loss_compute_pair [of ?self "[7, 8]" "\<lparr>ncols = 1, rows = [[1]]\<rparr>" 4 "[]"]
  obtain display node where
    r: "SimpleLossCompute_call ?self [7, 8] \<lparr>ncols = 1, rows = [[1]]\<rparr> 4 [] =
         ((display, node), [] @ [GeneratorCall, CriterionCall])"
    and n: "item node = fdiv (item (criterion ?self (view2 (generator ?self [7, 8]))
              (view1 \<lparr>ncols = 1, rows = [[1]]\<rparr>))) (Fin 4)"
      "requires_grad node = requires_grad (criterion ?self (view2 (generator ?self [7, 8]))
              (view1 \<lparr>ncols = 1, rows = [[1]]\<rparr>))"
    and d: "requires_grad display = False"
      "(4::rat) \<noteq> 0 \<longrightarrow> item display = item (criterion ?self (view2 (generator ?self [7, 8]))
              (view1 \<lparr>ncols = 1, rows = [[1]]\<rparr>))"
    by blast
  have "node = \<lparr>item = Fin (3 / 2), requires_grad = True\<rparr>"
    using n by simp
  moreover have "display = \<lparr>item = Fin 6, requires_grad = False\<rparr>"
    using d by simp
  ultimately show ?thesis
    using r by simp
qed

theorem loss_compute_zero_norm_counterexample:
  "item (criterion
     \<lparr>generator = (\<lambda>x. \<lparr>last_dim = 2, planes = [[x]]\<rparr>),
      criterion = (\<lambda>x t. \<lparr>item = Fin 0, requires_grad = True\<rparr>)\<rparr>
     (view2 \<lparr>last_dim = 2, planes = [[[7, 8 :: rat]]]\<rparr>) (view1 \<lparr>ncols = 1, rows = [[2]]\<rparr>)) = Fin 0 \<and>
   item (fst (fst (SimpleLossCompute_call
     \<lparr>generator = (\<lambda>x. \<lparr>last_dim = 2, planes = [[x]]\<rparr>),
      criterion = (\<lambda>x t. \<lparr>item = Fin 0, requires_grad = True\<rparr>)\<rparr>
     [7, 8 :: rat] \<lparr>ncols = 1, rows = [[2]]\<rparr> 0 []))) = NaN"
  by (simp add: SimpleLossCompute_call_def Let_def tensor_div_def tensor_mul_def data_def)

end
